theory Spec2Isabelle
  imports Main
begin

section \<open>Data model of the contest web server handlers\<close>

text \<open>
  The handlers of \<^verbatim>\<open>cms/server/contest/handlers/main.py\<close> are embedded as
  functions that take the handler's context (\<^verbatim>\<open>self\<close>: the contest, the request,
  the current user, the request's timestamp) and the state they read and write
  (database rows, the service's notification dictionary, the file cacher, the printing
  service, the browser's secure cookies, the log) and return the reply together with the
  new state.

  A \<^verbatim>\<open>datetime\<close> is a point in time with microsecond resolution; it is
  modelled as the number of microseconds since the epoch. Strings are byte lists; the
  \<^verbatim>\<open>encode("utf-8")\<close> calls of the source are the identity on them.
\<close>

type_synonym datetime = int

record user =
  username :: string
  password :: string

record message =
  msg_timestamp :: datetime
  msg_subject :: string
  msg_text :: string

record question =
  reply_timestamp :: "datetime option"
  reply_subject :: "string option"
  reply_text :: "string option"

record announcement =
  ann_timestamp :: datetime
  ann_subject :: string
  ann_text :: string

text \<open>
  A Participation row. \<^verbatim>\<open>participation.user.username\<close> is the field
  \<open>p_username\<close> (the row's reference to its user); \<^verbatim>\<open>participation.password\<close>
  is \<open>p_password\<close>.
\<close>

record participation =
  p_username :: string
  p_password :: "string option"
  p_ip :: "string option"
  p_hidden :: bool
  starting_time :: "datetime option"
  messages :: "message list"
  questions :: "question list"

record contest =
  name :: string
  open_participation :: bool
  ip_restriction :: bool
  block_hidden_participations :: bool
  announcements :: "announcement list"

record printjob =
  pj_id :: nat
  pj_timestamp :: datetime
  pj_participation :: "string \<times> string"
  pj_filename :: string
  pj_digest :: string

datatype level = NOTIFICATION_ERROR | NOTIFICATION_WARNING | NOTIFICATION_SUCCESS

text \<open>
  An entry of \<^verbatim>\<open>service.notifications[username]\<close>: the tuple
  (timestamp, subject, text, level).
\<close>

type_synonym notification = "datetime \<times> string \<times> string \<times> level"

text \<open>
  The value of a secure cookie. \<^verbatim>\<open>"%d" % n\<close> written and \<^verbatim>\<open>int(...)\<close>
  read back is \<open>IntCookie n\<close>; the pickled login triple is \<open>LoginCookie\<close>.
\<close>

datatype cookie = IntCookie int | LoginCookie string string datetime

datatype log_entry =
    LoginError string string string
  | UnexpectedIP string string string
  | HiddenLoginAttempt string string string
  | UserLoggedIn string string
  | StartingNow string
  | StorageFailed
  | FileStored string

text \<open>
  An entry of the JSON list that the notifications handler writes. The key
  \<^verbatim>\<open>"level"\<close> is present for ad-hoc notifications only. A question's subject is
  \<^verbatim>\<open>None\<close> when neither reply field is set.
\<close>

record event =
  ev_type :: string
  ev_timestamp :: datetime
  ev_subject :: "string option"
  ev_text :: string
  ev_level :: "level option"

text \<open>
  Where a redirect goes: the unevaluated call of the handler's URL builders.
  \<open>Url parts\<close> is \<^verbatim>\<open>self.url(*parts)\<close>, \<open>ContestUrl parts args\<close> is
  \<^verbatim>\<open>self.contest_url(*parts, **args)\<close>.
\<close>

datatype target = Url "string list" | ContestUrl "string list" "(string \<times> string) list"

text \<open>
  What the request is answered with: a redirect, an HTTP error raised by the handler, the
  JSON list written by the notifications handler, the refusal of the phase decorator, or
  an exception that the handler does not catch.
\<close>

datatype exn = ValueError | KeyError | IndexError

datatype reply =
    Redirect target
  | HTTPError nat
  | WriteJson "event list"
  | PhaseRefused
  | Raised exn

record upload =
  filename :: string
  body :: string

text \<open>
  The state that outlives a request. Users are keyed by their unique username,
  participations by the unique pair (contest name, username).
  \<open>file_cacher\<close> lists the calls of \<^verbatim>\<open>put_file_content\<close> (data, description),
  \<open>printing_service\<close> the calls of \<^verbatim>\<open>new_printjob\<close>, oldest first.
  \<open>cookies\<close> are the secure cookies of the browser: what
  \<^verbatim>\<open>get_secure_cookie\<close> reads and what \<^verbatim>\<open>set_secure_cookie\<close> leaves for the
  next request.
\<close>

record world =
  users :: "string \<rightharpoonup> user"
  participations :: "string \<times> string \<rightharpoonup> participation"
  printjobs :: "printjob list"
  notifications :: "string \<rightharpoonup> notification list"
  file_cacher :: "(string \<times> string) list"
  printing_service :: "nat list"
  cookies :: "string \<rightharpoonup> cookie"
  log :: "log_entry list"

text \<open>
  The handler object of one request: \<^verbatim>\<open>self.contest\<close>, the request's
  arguments, files and remote address, \<^verbatim>\<open>self.current_user\<close>,
  \<^verbatim>\<open>self.timestamp\<close>, the wall clock read by \<^verbatim>\<open>make_timestamp()\<close>, and the two
  entries of \<^verbatim>\<open>self.r_params\<close> that the handlers read. The uploaded files are the
  items of the dictionary \<^verbatim>\<open>self.request.files\<close>.
\<close>

record handler =
  contest :: contest
  arguments :: "string \<rightharpoonup> string"
  remote_ip :: string
  files :: "(string \<times> upload list) list"
  current_user :: "participation option"
  timestamp :: datetime
  now :: datetime
  actual_phase :: int
  printing_enabled :: bool

text \<open>
  Functions of other modules and libraries that the handlers call and whose code is
  not part of this file: the composition \<^verbatim>\<open>make_datetime(float(s))\<close>
  (\<open>None\<close> when \<^verbatim>\<open>float\<close> raises), \<^verbatim>\<open>cmscommon.crypto.validate_password\<close>,
  \<^verbatim>\<open>check_ip\<close>, \<^verbatim>\<open>filter_ascii\<close>, \<^verbatim>\<open>bcrypt.hashpw\<close> (\<open>None\<close> when
  it raises on an invalid salt), \<^verbatim>\<open>hashlib.sha256\<close>'s hex digest, and the outcome of
  \<^verbatim>\<open>file_cacher.put_file_content\<close> (\<open>None\<close> when it raises).
\<close>

record externals =
  float_datetime :: "string \<Rightarrow> datetime option"
  crypto_validate_password :: "string \<Rightarrow> string \<Rightarrow> bool"
  check_ip :: "string \<Rightarrow> string \<Rightarrow> bool"
  filter_ascii :: "string \<Rightarrow> string"
  bcrypt_hashpw :: "string \<Rightarrow> string \<Rightarrow> string option"
  sha256_hexdigest :: "string \<Rightarrow> string"
  put_file_content :: "string \<Rightarrow> string \<Rightarrow> string option"

record config =
  secret_key :: string
  max_jobs_per_user :: int
  max_print_length :: int

section \<open>NotificationsHandler\<close>

text \<open>\<^verbatim>\<open>self.get_argument(key, default)\<close> with a string default.\<close>

definition get_argument :: "handler \<Rightarrow> string \<Rightarrow> string \<Rightarrow> string" where
  "get_argument self key dflt = (case arguments self key of None \<Rightarrow> dflt | Some v \<Rightarrow> v)"

definition announcement_event :: "announcement \<Rightarrow> event" where
  "announcement_event a =
     \<lparr>ev_type = ''announcement'', ev_timestamp = ann_timestamp a,
      ev_subject = Some (ann_subject a), ev_text = ann_text a, ev_level = None\<rparr>"

definition message_event :: "message \<Rightarrow> event" where
  "message_event m =
     \<lparr>ev_type = ''message'', ev_timestamp = msg_timestamp m,
      ev_subject = Some (msg_subject m), ev_text = msg_text m, ev_level = None\<rparr>"

text \<open>
  Lines 249 to 265: the subject falls back to the reply text when the reply subject
  is missing, and the text is empty when either is missing.
\<close>

definition question_event :: "datetime \<Rightarrow> question \<Rightarrow> event" where
  "question_event t q =
     (case reply_subject q of
        None \<Rightarrow>
          \<lparr>ev_type = ''question'', ev_timestamp = t,
           ev_subject = reply_text q, ev_text = [], ev_level = None\<rparr>
      | Some s \<Rightarrow>
          (case reply_text q of
             None \<Rightarrow>
               \<lparr>ev_type = ''question'', ev_timestamp = t,
                ev_subject = Some s, ev_text = [], ev_level = None\<rparr>
           | Some x \<Rightarrow>
               \<lparr>ev_type = ''question'', ev_timestamp = t,
                ev_subject = Some s, ev_text = x, ev_level = None\<rparr>))"

definition notification_event :: "notification \<Rightarrow> event" where
  "notification_event n =
     (case n of (t, subject, text, lvl) \<Rightarrow>
        \<lparr>ev_type = ''notification'', ev_timestamp = t,
         ev_subject = Some subject, ev_text = text, ev_level = Some lvl\<rparr>)"

text \<open>The three loops over the durable sources, each appending to \<^verbatim>\<open>res\<close>.\<close>

fun announcements_loop ::
  "datetime \<Rightarrow> datetime \<Rightarrow> announcement list \<Rightarrow> event list \<Rightarrow> event list" where
  "announcements_loop last_notification ts [] res = res"
| "announcements_loop last_notification ts (a # as) res =
     announcements_loop last_notification ts as
       (if ann_timestamp a > last_notification \<and> ann_timestamp a < ts
        then res @ [announcement_event a] else res)"

fun messages_loop ::
  "datetime \<Rightarrow> datetime \<Rightarrow> message list \<Rightarrow> event list \<Rightarrow> event list" where
  "messages_loop last_notification ts [] res = res"
| "messages_loop last_notification ts (m # ms) res =
     messages_loop last_notification ts ms
       (if msg_timestamp m > last_notification \<and> msg_timestamp m < ts
        then res @ [message_event m] else res)"

fun questions_loop ::
  "datetime \<Rightarrow> datetime \<Rightarrow> question list \<Rightarrow> event list \<Rightarrow> event list" where
  "questions_loop last_notification ts [] res = res"
| "questions_loop last_notification ts (q # qs) res =
     questions_loop last_notification ts qs
       (case reply_timestamp q of
          None \<Rightarrow> res
        | Some t \<Rightarrow>
            (if t > last_notification \<and> t < ts
             then res @ [question_event t q] else res))"

fun notifications_loop :: "notification list \<Rightarrow> event list \<Rightarrow> event list" where
  "notifications_loop [] res = res"
| "notifications_loop (n # ns) res = notifications_loop ns (res @ [notification_event n])"

text \<open>Lines 214 to 265: the durable events selected by one request.\<close>

definition durable_events :: "handler \<Rightarrow> participation \<Rightarrow> datetime \<Rightarrow> event list" where
  "durable_events self participation last_notification =
     questions_loop last_notification (timestamp self) (questions participation)
       (messages_loop last_notification (timestamp self) (messages participation)
          (announcements_loop last_notification (timestamp self)
             (announcements (contest self)) []))"

text \<open>
  Lines 270 to 272: \<^verbatim>\<open>int(prev_unread_count) if prev_unread_count is not None else 0\<close>.
  \<^verbatim>\<open>int\<close> of a cookie that does not hold a number raises (\<open>None\<close>).
\<close>

definition prev_unread_count :: "handler \<Rightarrow> world \<Rightarrow> int option" where
  "prev_unread_count self w =
     (case cookies w (name (contest self) @ ''_unread_count'') of
        None \<Rightarrow> Some 0
      | Some (IntCookie n) \<Rightarrow> Some n
      | Some (LoginCookie u p t) \<Rightarrow> None)"

text \<open>Lines 269 to 273.\<close>

definition update_unread_count :: "handler \<Rightarrow> event list \<Rightarrow> world \<Rightarrow> world option" where
  "update_unread_count self res w =
     (case prev_unread_count self w of
        None \<Rightarrow> None
      | Some prev \<Rightarrow>
          (let next_unread_count = int (length res) + prev in
           Some (w\<lparr>cookies :=
                     (cookies w)(name (contest self) @ ''_unread_count'' \<mapsto>
                        IntCookie next_unread_count)\<rparr>)))"

text \<open>Lines 276 to 287: the ad-hoc notifications are appended and their entry deleted.\<close>

definition take_notifications :: "participation \<Rightarrow> event list \<Rightarrow> world \<Rightarrow> event list \<times> world" where
  "take_notifications participation res w =
     (let username = p_username participation in
      case notifications w username of
        None \<Rightarrow> (res, w)
      | Some ns \<Rightarrow>
          (notifications_loop ns res, w\<lparr>notifications := (notifications w)(username := None)\<rparr>))"

text \<open>
  \<^verbatim>\<open>NotificationsHandler.get\<close>. A request without current user is answered with
  403 (line 210; the framework's decorator \<^verbatim>\<open>authenticated\<close> answers such a GET
  before with a redirect to the login page, which changes no state either). An argument
  that \<^verbatim>\<open>float\<close> does not parse, and an unread cookie that \<^verbatim>\<open>int\<close> does not
  parse, raise before anything is written. The timestamps of the written entries are the
  exact values of \<^verbatim>\<open>make_timestamp\<close>.
\<close>

definition NotificationsHandler_get :: "externals \<Rightarrow> handler \<Rightarrow> world \<Rightarrow> reply \<times> world" where
  "NotificationsHandler_get ext self w =
     (case current_user self of
        None \<Rightarrow> (HTTPError 403, w)
      | Some participation \<Rightarrow>
          (case float_datetime ext (get_argument self ''last_notification'' ''0'') of
             None \<Rightarrow> (Raised ValueError, w)
           | Some last_notification \<Rightarrow>
               (let res = durable_events self participation last_notification in
                case update_unread_count self res w of
                  None \<Rightarrow> (Raised ValueError, w)
                | Some w1 \<Rightarrow>
                    (case take_notifications participation res w1 of
                       (res2, w2) \<Rightarrow> (WriteJson res2, w2)))))"


section \<open>PrintingHandler\<close>

text \<open>
  Modelled from the spec: \<^verbatim>\<open>service.add_notification\<close> is not part of this file.
  It is the spec's \<^verbatim>\<open>NotificationSink.push(username, timestamp, subject, body, severity)\<close>:
  the notification is queued under the username in the dictionary that the notifications
  handler drains.
\<close>

definition add_notification ::
  "string \<Rightarrow> datetime \<Rightarrow> string \<Rightarrow> string \<Rightarrow> level \<Rightarrow> world \<Rightarrow> world" where
  "add_notification uname ts subject text lvl w =
     w\<lparr>notifications :=
         (notifications w)(uname \<mapsto>
            (case notifications w uname of None \<Rightarrow> [] | Some ns \<Rightarrow> ns) @
            [(ts, subject, text, lvl)])\<rparr>"

text \<open>
  Modelled from the spec: the decorator \<^verbatim>\<open>actual_phase_required\<close> is not part of
  this file. The spec lets the decorated operation run only when the contest's current
  phase equals the required one; otherwise the request is refused and nothing changes.
\<close>

definition actual_phase_required ::
  "int \<Rightarrow> handler \<Rightarrow> world \<Rightarrow> (reply \<times> world) \<Rightarrow> reply \<times> world" where
  "actual_phase_required phase self w run =
     (if actual_phase self \<noteq> phase then (PhaseRefused, w) else run)"

text \<open>Python's \<^verbatim>\<open>"%d" % n\<close>.\<close>

fun str_nat :: "nat \<Rightarrow> string" where
  "str_nat n =
     (if n < 10 then [''0123456789'' ! n]
      else str_nat (n div 10) @ [''0123456789'' ! (n mod 10)])"

declare str_nat.simps [simp del]

definition str_int :: "int \<Rightarrow> string" where
  "str_int i = (if i < 0 then CHR ''-'' # str_nat (nat (- i)) else str_nat (nat i))"

text \<open>
  \<^verbatim>\<open>"%d" % make_timestamp(t)\<close>: the seconds since the epoch, truncated towards
  zero.
\<close>

definition str_timestamp :: "datetime \<Rightarrow> string" where
  "str_timestamp t = str_int (sgn t * (\<bar>t\<bar> div 1000000))"

text \<open>Lines 331 to 333: the print jobs of the participation.\<close>

definition participation_printjobs :: "handler \<Rightarrow> participation \<Rightarrow> world \<Rightarrow> printjob list" where
  "participation_printjobs self participation w =
     filter (\<lambda>j. pj_participation j = (name (contest self), p_username participation))
       (printjobs w)"

text \<open>Lines 347 to 349: the shape check of the uploaded files.\<close>

definition invalid_format :: "handler \<Rightarrow> bool" where
  "invalid_format self =
     (list_ex (\<lambda>fs. length fs \<noteq> 1) (map snd (files self))
      \<or> set (map fst (files self)) \<noteq> set [''file''])"

text \<open>Lines 373 and 374: the description under which the file is stored.\<close>

definition print_description :: "handler \<Rightarrow> participation \<Rightarrow> string" where
  "print_description self participation =
     ''Print job sent by '' @ p_username participation @ '' at '' @
     str_timestamp (timestamp self) @ ''.''"

text \<open>
  \<^verbatim>\<open>PrintingHandler.post\<close> under its decorators: the framework's
  \<^verbatim>\<open>authenticated\<close> answers a POST without current user with 403, then
  \<^verbatim>\<open>actual_phase_required(0)\<close>; \<^verbatim>\<open>multi_contest\<close> only selects the contest, which
  the handler already carries. The translation function \<^verbatim>\<open>self._\<close> is the
  identity. A print job belongs to the participation with the key
  (contest name, username), and the database numbers the rows in the order of insertion.
  The branches after the shape check that find no first file under \<^verbatim>\<open>"file"\<close> are
  the \<^verbatim>\<open>KeyError\<close> and \<^verbatim>\<open>IndexError\<close> of line 357; the shape check excludes them.
  The call of \<^verbatim>\<open>put_file_content\<close> is recorded in \<open>file_cacher\<close> whether or not it
  raises.
\<close>

definition PrintingHandler_post ::
  "externals \<Rightarrow> config \<Rightarrow> handler \<Rightarrow> world \<Rightarrow> reply \<times> world" where
  "PrintingHandler_post ext cfg self w =
     (case current_user self of
        None \<Rightarrow> (HTTPError 403, w)
      | Some participation \<Rightarrow>
          actual_phase_required 0 self w
            (if \<not> printing_enabled self then (HTTPError 404, w)
             else
               (let fallback_page = ContestUrl [''printing''] [];
                    uname = p_username participation;
                    old_count = int (length (participation_printjobs self participation w))
                in
                if max_jobs_per_user cfg \<le> old_count then
                  (Redirect fallback_page,
                   add_notification uname (timestamp self) ''Too many print jobs!''
                     (''You have reached the maximum limit of at most '' @
                      str_int (max_jobs_per_user cfg) @ '' print jobs.'')
                     NOTIFICATION_ERROR w)
                else if invalid_format self then
                  (Redirect fallback_page,
                   add_notification uname (timestamp self) ''Invalid format!''
                     ''Please select the correct files.'' NOTIFICATION_ERROR w)
                else
                  (case map_of (files self) ''file'' of
                     None \<Rightarrow> (Raised KeyError, w)
                   | Some [] \<Rightarrow> (Raised IndexError, w)
                   | Some (f # _) \<Rightarrow>
                       (let fname = filename f; data = body f in
                        if int (length data) > max_print_length cfg then
                          (Redirect fallback_page,
                           add_notification uname (timestamp self) ''File too big!''
                             (''Each file must be at most '' @
                              str_int (max_print_length cfg) @ '' bytes long.'')
                             NOTIFICATION_ERROR w)
                        else
                          (let description = print_description self participation;
                               w1 = w\<lparr>file_cacher := file_cacher w @ [(data, description)]\<rparr>
                           in
                           case put_file_content ext data description of
                             None \<Rightarrow>
                               (Redirect fallback_page,
                                add_notification uname (timestamp self)
                                  ''Print job storage failed!'' ''Please try again.''
                                  NOTIFICATION_ERROR
                                  (w1\<lparr>log := log w1 @ [StorageFailed]\<rparr>))
                           | Some digest \<Rightarrow>
                               (let w2 = w1\<lparr>log := log w1 @ [FileStored uname]\<rparr>;
                                    printjob =
                                      \<lparr>pj_id = Suc (length (printjobs w2)),
                                       pj_timestamp = timestamp self,
                                       pj_participation = (name (contest self), uname),
                                       pj_filename = fname,
                                       pj_digest = digest\<rparr>;
                                    w3 = w2\<lparr>printjobs := printjobs w2 @ [printjob]\<rparr>;
                                    w4 = w3\<lparr>printing_service :=
                                              printing_service w3 @ [pj_id printjob]\<rparr>
                                in
                                (Redirect fallback_page,
                                 add_notification uname (timestamp self)
                                   ''Print job received''
                                   ''Your print job has been received.''
                                   NOTIFICATION_SUCCESS w4))))))))"

section \<open>StartHandler\<close>

text \<open>
  \<^verbatim>\<open>StartHandler.post\<close> under its decorators \<^verbatim>\<open>authenticated\<close> and
  \<^verbatim>\<open>actual_phase_required(-1)\<close>. The body (lines 179 to 185) assigns the request's
  timestamp to \<^verbatim>\<open>participation.starting_time\<close> without reading the field; the commit
  writes the changed participation back to its row.
\<close>

definition StartHandler_post :: "handler \<Rightarrow> world \<Rightarrow> reply \<times> world" where
  "StartHandler_post self w =
     (case current_user self of
        None \<Rightarrow> (HTTPError 403, w)
      | Some participation \<Rightarrow>
          actual_phase_required (- 1) self w
            (let w1 = w\<lparr>log := log w @ [StartingNow (p_username participation)]\<rparr>;
                 participation' = participation\<lparr>starting_time := Some (timestamp self)\<rparr>;
                 w2 = w1\<lparr>participations :=
                          (participations w1)
                            ((name (contest self), p_username participation) \<mapsto>
                             participation')\<rparr>
             in (Redirect (ContestUrl [] []), w2)))"


section \<open>LoginHandler\<close>

text \<open>Python's \<^verbatim>\<open>s.startswith(p)\<close>, \<^verbatim>\<open>s.strip(c)\<close> and \<^verbatim>\<open>s.split(c)\<close> for a one-character \<^verbatim>\<open>c\<close>.\<close>

definition startswith :: "string \<Rightarrow> string \<Rightarrow> bool" where
  "startswith s p = (take (length p) s = p)"

definition strip :: "char \<Rightarrow> string \<Rightarrow> string" where
  "strip c s = rev (dropWhile (\<lambda>x. x = c) (rev (dropWhile (\<lambda>x. x = c) s)))"

fun split :: "char \<Rightarrow> string \<Rightarrow> string list" where
  "split c [] = [[]]"
| "split c (x # xs) =
     (if x = c then [] # split c xs
      else (case split c xs of [] \<Rightarrow> [[x]] | p # ps \<Rightarrow> (x # p) # ps))"

text \<open>
  \<^verbatim>\<open>s.split(c, 1)[1]\<close>: what follows the first occurrence of \<^verbatim>\<open>c\<close>; the
  source takes it only of strings that start with a prefix ending in \<^verbatim>\<open>c\<close>.
\<close>

definition split_1_snd :: "char \<Rightarrow> string \<Rightarrow> string" where
  "split_1_snd c s = tl (dropWhile (\<lambda>x. x \<noteq> c) s)"

text \<open>
  The method \<^verbatim>\<open>LoginHandler.validate_password(pw, storedpw_obj)\<close>. It takes the
  value of \<^verbatim>\<open>storedpw_obj.password\<close> and the salt that \<^verbatim>\<open>bcrypt.gensalt()\<close> draws,
  and returns its result together with the value of \<^verbatim>\<open>storedpw_obj.password\<close> after
  the call, which is what the commit of line 86 stores.
\<close>

definition validate_password ::
  "externals \<Rightarrow> config \<Rightarrow> string \<Rightarrow> string \<Rightarrow> string \<Rightarrow> exn + (bool \<times> string)" where
  "validate_password ext cfg gensalt pw storedpw =
     (if startswith storedpw ''bcrypt:'' then
        (let payload = split_1_snd CHR '':'' storedpw in
         case bcrypt_hashpw ext pw payload of
           None \<Rightarrow> Inl ValueError
         | Some h \<Rightarrow> Inr (h = payload, storedpw))
      else if startswith storedpw ''text:'' then
        Inr (pw = split_1_snd CHR '':'' storedpw, storedpw)
      else
        (let pw_hashed = sha256_hexdigest ext (pw @ secret_key cfg) in
         if pw_hashed \<noteq> storedpw then Inr (False, storedpw)
         else
           (case bcrypt_hashpw ext pw gensalt of
              None \<Rightarrow> Inl ValueError
            | Some payload \<Rightarrow> Inr (True, ''bcrypt:'' @ payload))))"

text \<open>Lines 92 to 100: where a successful login redirects to.\<close>

definition next_page :: "handler \<Rightarrow> target" where
  "next_page self =
     (case arguments self ''next'' of
        None \<Rightarrow> ContestUrl [] []
      | Some n \<Rightarrow> (if n \<noteq> ''/'' then Url (split CHR ''/'' (strip CHR ''/'' n)) else Url []))"

text \<open>Lines 91 to 94 and 101: where every failed login redirects to.\<close>

definition error_page :: "handler \<Rightarrow> target" where
  "error_page self =
     (case arguments self ''next'' of
        None \<Rightarrow> ContestUrl [] [(''login_error'', ''true'')]
      | Some n \<Rightarrow> ContestUrl [] [(''login_error'', ''true''), (''next'', n)])"

text \<open>
  \<^verbatim>\<open>Participation(user=user, contest=self.contest)\<close>: every other column has its
  default.
\<close>

definition new_participation :: "string \<Rightarrow> participation" where
  "new_participation uname =
     \<lparr>p_username = uname, p_password = None, p_ip = None, p_hidden = False,
      starting_time = None, messages = [], questions = []\<rparr>"

text \<open>
  Lines 108 to 126: the participation of the user in the contest, created on the fly
  and committed when the contest is open; \<open>None\<close> when the user is not enrolled.
\<close>

definition resolve_participation ::
  "handler \<Rightarrow> string \<Rightarrow> world \<Rightarrow> (participation \<times> world) option" where
  "resolve_participation self uname w =
     (case participations w (name (contest self), uname) of
        Some p \<Rightarrow> Some (p, w)
      | None \<Rightarrow>
          (if open_participation (contest self) then
             Some (new_participation uname,
                   w\<lparr>participations :=
                       (participations w)
                         ((name (contest self), uname) \<mapsto> new_participation uname)\<rparr>)
           else None))"

text \<open>Lines 130 to 133: the password the login is checked against.\<close>

definition correct_password :: "user \<Rightarrow> participation \<Rightarrow> string" where
  "correct_password usr participation =
     (case p_password participation of None \<Rightarrow> password usr | Some pp \<Rightarrow> pp)"

text \<open>Lines 144 and 145.\<close>

definition ip_rejected :: "externals \<Rightarrow> handler \<Rightarrow> participation \<Rightarrow> bool" where
  "ip_rejected ext self participation =
     (ip_restriction (contest self) \<and>
      (case p_ip participation of
         None \<Rightarrow> False
       | Some ip \<Rightarrow> \<not> check_ip ext (remote_ip self) ip))"

text \<open>
  \<^verbatim>\<open>LoginHandler.post\<close>. The password is checked by the imported function
  \<^verbatim>\<open>validate_password(correct_password_obj.password, password)\<close> of
  \<^verbatim>\<open>cmscommon.crypto\<close>, which receives the two strings; the method
  \<^verbatim>\<open>self.validate_password\<close> above is not called. The state changes by the
  participation created on the fly, the log entries and, on success, the login cookie.
\<close>

definition LoginHandler_post :: "externals \<Rightarrow> handler \<Rightarrow> world \<Rightarrow> reply \<times> world" where
  "LoginHandler_post ext self w =
     (let uname = get_argument self ''username'' [];
          passwd = get_argument self ''password'' [] in
      case users w uname of
        None \<Rightarrow> (Redirect (error_page self), w)
      | Some usr \<Rightarrow>
          (case resolve_participation self uname w of
             None \<Rightarrow> (Redirect (error_page self), w)
           | Some (participation, w1) \<Rightarrow>
               (let stored = correct_password usr participation;
                    filtered_user = filter_ascii ext uname;
                    filtered_pass = filter_ascii ext passwd
                in
                if \<not> crypto_validate_password ext stored passwd then
                  (Redirect (error_page self),
                   w1\<lparr>log := log w1 @
                        [LoginError filtered_user filtered_pass (remote_ip self)]\<rparr>)
                else if ip_rejected ext self participation then
                  (Redirect (error_page self),
                   w1\<lparr>log := log w1 @
                        [UnexpectedIP filtered_user filtered_pass (remote_ip self)]\<rparr>)
                else if p_hidden participation
                        \<and> block_hidden_participations (contest self) then
                  (Redirect (error_page self),
                   w1\<lparr>log := log w1 @
                        [HiddenLoginAttempt filtered_user filtered_pass (remote_ip self)]\<rparr>)
                else
                  (Redirect (next_page self),
                   w1\<lparr>log := log w1 @ [UserLoggedIn filtered_user (remote_ip self)],
                      cookies :=
                        (cookies w1)(name (contest self) @ ''_login'' \<mapsto>
                           LoginCookie (username usr) stored (now self))\<rparr>))))"


section \<open>The specification's reading of the handlers\<close>

text \<open>
  A question reply as the specification selects it: by its \<^verbatim>\<open>reply_timestamp\<close>,
  strictly inside the window, and not at all when the timestamp is null.
\<close>

definition spec_selected_reply :: "datetime \<Rightarrow> datetime \<Rightarrow> question \<Rightarrow> event option" where
  "spec_selected_reply last_seen server_now q =
     (case reply_timestamp q of
        None \<Rightarrow> None
      | Some t \<Rightarrow>
          (if last_seen < t \<and> t < server_now then Some (question_event t q) else None))"

text \<open>
  The failures of Login as the specification orders them (section 4.1, steps 1 to 5);
  \<open>None\<close> is a successful login.
\<close>

datatype auth_error = NoSuchUser | NotEnrolled | BadPassword | IPRejected | HiddenRejected

definition spec_login_failure :: "externals \<Rightarrow> handler \<Rightarrow> world \<Rightarrow> auth_error option" where
  "spec_login_failure ext self w =
     (case users w (get_argument self ''username'' []) of
        None \<Rightarrow> Some NoSuchUser
      | Some usr \<Rightarrow>
          (case resolve_participation self (get_argument self ''username'' []) w of
             None \<Rightarrow> Some NotEnrolled
           | Some (participation, w1) \<Rightarrow>
               (if \<not> crypto_validate_password ext (correct_password usr participation)
                       (get_argument self ''password'' [])
                then Some BadPassword
                else if ip_rejected ext self participation then Some IPRejected
                else if p_hidden participation \<and> block_hidden_participations (contest self)
                then Some HiddenRejected
                else None)))"

text \<open>
  Modelled from the spec: the contest's phase machine, which computes the phase that a
  request carries in \<^verbatim>\<open>self.r_params["actual_phase"]\<close>, is not part of this file.
  The spec (section 4.1, StartClock) makes the setting of \<^verbatim>\<open>starting_time\<close> the
  cause of the participation's transition from the phase ``not yet started'' into
  ``running'': the phase of a request is \<open>-1\<close> only while the \<^verbatim>\<open>starting_time\<close> of
  its current user is unset.
\<close>

definition spec_phase_machine :: "handler \<Rightarrow> bool" where
  "spec_phase_machine self =
     (case current_user self of
        None \<Rightarrow> True
      | Some participation \<Rightarrow>
          (case starting_time participation of
             None \<Rightarrow> True
           | Some t \<Rightarrow> actual_phase self \<noteq> - 1))"

section \<open>Sample inputs\<close>

text \<open>
  Concrete inputs at which the theorems below are evaluated. The external functions
  are stand-ins: the timestamp parser reads unsigned whole seconds, the password checker
  knows plaintext records only, the two hash functions are simple string functions (the
  bcrypt stand-in keeps the first two characters of the salt, so that hashing against
  a hash reproduces it, as bcrypt does), and storing a file fails for empty data.
\<close>

definition digit_value :: "char \<Rightarrow> int option" where
  "digit_value c = map_of (zip ''0123456789'' [0, 1, 2, 3, 4, 5, 6, 7, 8, 9]) c"

fun digits_value :: "string \<Rightarrow> int \<Rightarrow> int option" where
  "digits_value [] acc = Some acc"
| "digits_value (c # cs) acc =
     (case digit_value c of None \<Rightarrow> None | Some d \<Rightarrow> digits_value cs (10 * acc + d))"

definition digits_datetime :: "string \<Rightarrow> datetime option" where
  "digits_datetime s =
     (if s = [] then None
      else (case digits_value s 0 of None \<Rightarrow> None | Some n \<Rightarrow> Some (1000000 * n)))"

definition sample_externals :: externals where
  "sample_externals =
     \<lparr>float_datetime = digits_datetime,
      crypto_validate_password = (\<lambda>stored pw. stored = ''text:'' @ pw),
      check_ip = (\<lambda>ip net. ip = net),
      filter_ascii = (\<lambda>s. s),
      bcrypt_hashpw = (\<lambda>pw salt. if length salt < 2 then None else Some (take 2 salt @ rev pw)),
      sha256_hexdigest = (\<lambda>s. ''#'' @ rev s),
      put_file_content = (\<lambda>data description. if data = [] then None else Some (''d:'' @ take 4 data))\<rparr>"

definition sample_config :: config where
  "sample_config = \<lparr>secret_key = ''k'', max_jobs_per_user = 2, max_print_length = 1000\<rparr>"

definition sample_contest :: contest where
  "sample_contest =
     \<lparr>name = ''ioi'', open_participation = False, ip_restriction = True,
      block_hidden_participations = True,
      announcements =
        [\<lparr>ann_timestamp = 0, ann_subject = ''Welcome'', ann_text = ''Stamped at the epoch''\<rparr>,
         \<lparr>ann_timestamp = 3000000, ann_subject = ''Clarification'', ann_text = ''Task 1''\<rparr>,
         \<lparr>ann_timestamp = 9000000, ann_subject = ''Late'', ann_text = ''Not yet''\<rparr>]\<rparr>"

definition alice :: participation where
  "alice =
     \<lparr>p_username = ''alice'', p_password = None, p_ip = None, p_hidden = False,
      starting_time = Some 5000000,
      messages = [\<lparr>msg_timestamp = 4000000, msg_subject = ''Hello'', msg_text = ''Private''\<rparr>],
      questions =
        [\<lparr>reply_timestamp = Some 6000000, reply_subject = None, reply_text = Some ''Yes''\<rparr>,
         \<lparr>reply_timestamp = None, reply_subject = None, reply_text = None\<rparr>]\<rparr>"

definition sample_world :: world where
  "sample_world =
     \<lparr>users = [''alice'' \<mapsto> \<lparr>username = ''alice'', password = ''text:secret''\<rparr>],
      participations = [(''ioi'', ''alice'') \<mapsto> alice],
      printjobs = [],
      notifications =
        [''alice'' \<mapsto> [(7000000, ''Print job received'',
                        ''Your print job has been received.'', NOTIFICATION_SUCCESS)]],
      file_cacher = [],
      printing_service = [],
      cookies = Map.empty,
      log = []\<rparr>"

text \<open>The request of \<open>alice\<close> at second 8 with the given arguments and files.\<close>

definition sample_request :: "(string \<rightharpoonup> string) \<Rightarrow> (string \<times> upload list) list \<Rightarrow> handler" where
  "sample_request args fs =
     \<lparr>contest = sample_contest, arguments = args, remote_ip = ''10.0.0.7'', files = fs,
      current_user = Some alice, timestamp = 8000000, now = 8000001, actual_phase = 0,
      printing_enabled = True\<rparr>"

definition sample_job :: "nat \<Rightarrow> printjob" where
  "sample_job i =
     \<lparr>pj_id = i, pj_timestamp = 2000000, pj_participation = (''ioi'', ''alice''),
      pj_filename = ''a.txt'', pj_digest = ''d:abcd''\<rparr>"

text \<open>
  A second stand-in for the imported password checker, which knows legacy keyed-hash
  records only, and a state in which the record of \<open>alice\<close> is the legacy keyed hash
  of \<^verbatim>\<open>secret\<close>.
\<close>

definition legacy_externals :: externals where
  "legacy_externals =
     sample_externals
       \<lparr>crypto_validate_password :=
          (\<lambda>stored pw.
             stored = sha256_hexdigest sample_externals (pw @ secret_key sample_config))\<rparr>"

definition legacy_world :: world where
  "legacy_world =
     sample_world\<lparr>users := [''alice'' \<mapsto> \<lparr>username = ''alice'', password = ''#kterces''\<rparr>]\<rparr>"

text \<open>The arguments of a login request.\<close>

definition login_arguments :: "string \<Rightarrow> string \<Rightarrow> string option \<Rightarrow> (string \<rightharpoonup> string)" where
  "login_arguments uname passwd nxt =
     (case nxt of
        None \<Rightarrow> [''username'' \<mapsto> uname, ''password'' \<mapsto> passwd]
      | Some n \<Rightarrow> [''username'' \<mapsto> uname, ''password'' \<mapsto> passwd, ''next'' \<mapsto> n])"

section \<open>Properties of the notifications handler\<close>

lemma announcements_loop_filter:
  "announcements_loop l t as res =
     res @ map announcement_event (filter (\<lambda>a. l < ann_timestamp a \<and> ann_timestamp a < t) as)"
  by (induction as arbitrary: res) simp_all

lemma messages_loop_filter:
  "messages_loop l t ms res =
     res @ map message_event (filter (\<lambda>m. l < msg_timestamp m \<and> msg_timestamp m < t) ms)"
  by (induction ms arbitrary: res) simp_all

lemma questions_loop_filter:
  "questions_loop l t qs res = res @ List.map_filter (spec_selected_reply l t) qs"
  by (induction qs arbitrary: res)
     (simp_all add: spec_selected_reply_def split: option.splits)

lemma notifications_loop_map:
  "notifications_loop ns res = res @ map notification_event ns"
  by (induction ns arbitrary: res) simp_all

lemma durable_events_eq:
  "durable_events self p l =
     map announcement_event
       (filter (\<lambda>a. l < ann_timestamp a \<and> ann_timestamp a < timestamp self)
          (announcements (contest self))) @
     map message_event
       (filter (\<lambda>m. l < msg_timestamp m \<and> msg_timestamp m < timestamp self) (messages p)) @
     List.map_filter (spec_selected_reply l (timestamp self)) (questions p)"
  by (simp add: durable_events_def announcements_loop_filter messages_loop_filter
      questions_loop_filter)

lemma durable_events_no_notification:
  "filter (\<lambda>e. ev_type e = ''notification'') (durable_events self p l) = []"
proof -
  have "ev_type e \<noteq> ''notification''" if "e \<in> set (durable_events self p l)" for e
    using that
    by (auto simp: durable_events_eq announcement_event_def message_event_def
        List.map_filter_def spec_selected_reply_def question_event_def
        split: option.splits if_splits)
  then show ?thesis by (simp add: filter_empty_conv)
qed

text \<open>What an authenticated, well-formed request does, in one equation.\<close>

lemma get_success:
  assumes "current_user self = Some p"
    and "float_datetime ext (get_argument self ''last_notification'' ''0'') = Some l"
    and "prev_unread_count self w = Some prev"
  shows "NotificationsHandler_get ext self w =
     (WriteJson (durable_events self p l @
        map notification_event
          (case notifications w (p_username p) of None \<Rightarrow> [] | Some ns \<Rightarrow> ns)),
      w\<lparr>cookies := (cookies w)(name (contest self) @ ''_unread_count'' \<mapsto>
            IntCookie (int (length (durable_events self p l)) + prev)),
        notifications := (notifications w)(p_username p := None)\<rparr>)"
  using assms
  apply (simp add: NotificationsHandler_get_def update_unread_count_def
      take_notifications_def Let_def notifications_loop_map split: option.splits)
  apply (cases w)
  apply (auto simp: fun_eq_iff)
  done

lemma sample_fetch_hyps:
  "current_user (sample_request Map.empty []) = Some alice"
  "float_datetime sample_externals
     (get_argument (sample_request Map.empty []) ''last_notification'' ''0'') = Some 0"
  "prev_unread_count (sample_request Map.empty []) sample_world = Some 0"
  "arguments (sample_request Map.empty []) ''last_notification'' = None"
  "float_datetime sample_externals ''0'' = Some 0"
  by (simp_all add: sample_request_def sample_externals_def get_argument_def
      digits_datetime_def digit_value_def prev_unread_count_def sample_world_def
      sample_contest_def)

text \<open>
  Claim C8. A fetch that is authenticated, whose \<^verbatim>\<open>last_notification\<close> argument parses
  to \<open>l\<close> and whose unread cookie is readable writes exactly: the announcements with
  \<open>l < timestamp < self.timestamp\<close>, then the messages in the same open window, then the
  question replies whose \<^verbatim>\<open>reply_timestamp\<close> is set and lies in the window, each group
  in its source order, and after them the ad-hoc notifications queued under the username.
\<close>

theorem fetch_returns_window:
  assumes "current_user self = Some p"
    and "float_datetime ext (get_argument self ''last_notification'' ''0'') = Some l"
    and "prev_unread_count self w = Some prev"
  shows "fst (NotificationsHandler_get ext self w) =
     WriteJson
       (map announcement_event
          (filter (\<lambda>a. l < ann_timestamp a \<and> ann_timestamp a < timestamp self)
             (announcements (contest self))) @
        map message_event
          (filter (\<lambda>m. l < msg_timestamp m \<and> msg_timestamp m < timestamp self) (messages p)) @
        List.map_filter (spec_selected_reply l (timestamp self)) (questions p) @
        map notification_event
          (case notifications w (p_username p) of None \<Rightarrow> [] | Some ns \<Rightarrow> ns))"
  by (simp add: get_success [OF assms] durable_events_eq)

text \<open>
  At the sample request with \<^verbatim>\<open>last_notification=3\<close>: the announcement stamped at
  second 3 is on the lower bound and is left out, the one at second 9 lies after the
  request's timestamp 8, the question without reply is skipped.
\<close>

theorem fetch_returns_window_witness:
  "fst (NotificationsHandler_get sample_externals
          (sample_request [''last_notification'' \<mapsto> ''3''] []) sample_world) =
     WriteJson
       [\<lparr>ev_type = ''message'', ev_timestamp = 4000000, ev_subject = Some ''Hello'',
         ev_text = ''Private'', ev_level = None\<rparr>,
        \<lparr>ev_type = ''question'', ev_timestamp = 6000000, ev_subject = Some ''Yes'',
         ev_text = [], ev_level = None\<rparr>,
        \<lparr>ev_type = ''notification'', ev_timestamp = 7000000,
         ev_subject = Some ''Print job received'',
         ev_text = ''Your print job has been received.'',
         ev_level = Some NOTIFICATION_SUCCESS\<rparr>]"
proof -
  let ?self = "sample_request [''last_notification'' \<mapsto> ''3''] []"
  have h1: "current_user ?self = Some alice"
    by (simp add: sample_request_def)
  have h2: "float_datetime sample_externals (get_argument ?self ''last_notification'' ''0'')
              = Some 3000000"
    by (simp add: sample_request_def sample_externals_def get_argument_def
        digits_datetime_def digit_value_def)
  have h3: "prev_unread_count ?self sample_world = Some 0"
    by (simp add: prev_unread_count_def sample_world_def)
  show ?thesis
    using fetch_returns_window [OF h1 h2 h3]
    by (simp add: sample_request_def sample_contest_def alice_def sample_world_def
        message_event_def spec_selected_reply_def question_event_def notification_event_def
        List.map_filter_def)
qed

text \<open>
  Claim C4. The unread cookie after a fetch holds the previous total (0 when the cookie
  is absent) plus the number of durable events selected by the call. The value does not
  depend on the queue of ad-hoc notifications, and it is written by
  \<open>update_unread_count\<close> to a state whose queue is still untouched, before
  \<open>take_notifications\<close> drains the queue, which leaves the cookies alone.
\<close>

theorem fetch_unread_counter:
  assumes "current_user self = Some p"
    and "float_datetime ext (get_argument self ''last_notification'' ''0'') = Some l"
    and "prev_unread_count self w = Some prev"
  shows "cookies (snd (NotificationsHandler_get ext self w))
           (name (contest self) @ ''_unread_count'') =
         Some (IntCookie (prev + int
           (length (filter (\<lambda>a. l < ann_timestamp a \<and> ann_timestamp a < timestamp self)
                      (announcements (contest self))) +
            length (filter (\<lambda>m. l < msg_timestamp m \<and> msg_timestamp m < timestamp self)
                      (messages p)) +
            length (List.map_filter (spec_selected_reply l (timestamp self)) (questions p)))))
       \<and> (\<forall>queue. cookies (snd (NotificationsHandler_get ext self (w\<lparr>notifications := queue\<rparr>))) =
                  cookies (snd (NotificationsHandler_get ext self w)))
       \<and> (\<exists>w1. update_unread_count self (durable_events self p l) w = Some w1
              \<and> notifications w1 = notifications w
              \<and> cookies w1 (name (contest self) @ ''_unread_count'') =
                  Some (IntCookie (prev + int (length (durable_events self p l))))
              \<and> cookies (snd (take_notifications p (durable_events self p l) w1)) = cookies w1
              \<and> NotificationsHandler_get ext self w =
                  (WriteJson (fst (take_notifications p (durable_events self p l) w1)),
                   snd (take_notifications p (durable_events self p l) w1)))"
proof (intro conjI allI)
  show "cookies (snd (NotificationsHandler_get ext self w))
           (name (contest self) @ ''_unread_count'') =
         Some (IntCookie (prev + int
           (length (filter (\<lambda>a. l < ann_timestamp a \<and> ann_timestamp a < timestamp self)
                      (announcements (contest self))) +
            length (filter (\<lambda>m. l < msg_timestamp m \<and> msg_timestamp m < timestamp self)
                      (messages p)) +
            length (List.map_filter (spec_selected_reply l (timestamp self)) (questions p)))))"
    by (simp add: get_success [OF assms] durable_events_eq)
next
  fix queue
  have "prev_unread_count self (w\<lparr>notifications := queue\<rparr>) = Some prev"
    using assms(3) by (simp add: prev_unread_count_def)
  from get_success [OF assms(1,2) this] get_success [OF assms]
  show "cookies (snd (NotificationsHandler_get ext self (w\<lparr>notifications := queue\<rparr>))) =
          cookies (snd (NotificationsHandler_get ext self w))"
    by simp
next
  let ?w1 = "w\<lparr>cookies := (cookies w)(name (contest self) @ ''_unread_count'' \<mapsto>
                 IntCookie (int (length (durable_events self p l)) + prev))\<rparr>"
  have u: "update_unread_count self (durable_events self p l) w = Some ?w1"
    using assms(3) by (simp add: update_unread_count_def)
  have t: "cookies (snd (take_notifications p (durable_events self p l) ?w1)) = cookies ?w1"
    by (simp add: take_notifications_def Let_def split: option.splits)
  have g: "NotificationsHandler_get ext self w =
             (WriteJson (fst (take_notifications p (durable_events self p l) ?w1)),
              snd (take_notifications p (durable_events self p l) ?w1))"
    using assms(1,2) u
    by (simp add: NotificationsHandler_get_def Let_def split: prod.splits)
  show "\<exists>w1. update_unread_count self (durable_events self p l) w = Some w1
              \<and> notifications w1 = notifications w
              \<and> cookies w1 (name (contest self) @ ''_unread_count'') =
                  Some (IntCookie (prev + int (length (durable_events self p l))))
              \<and> cookies (snd (take_notifications p (durable_events self p l) w1)) = cookies w1
              \<and> NotificationsHandler_get ext self w =
                  (WriteJson (fst (take_notifications p (durable_events self p l) w1)),
                   snd (take_notifications p (durable_events self p l) w1))"
    using u t g by (intro exI [of _ ?w1]) (simp add: add.commute)
qed

text \<open>
  At the sample request with a previous total of 4: three durable events are selected
  and one ad-hoc notification is queued; the new total is 7.
\<close>

theorem fetch_unread_counter_witness:
  "cookies (snd (NotificationsHandler_get sample_externals (sample_request Map.empty [])
       (sample_world\<lparr>cookies := [''ioi_unread_count'' \<mapsto> IntCookie 4]\<rparr>))) ''ioi_unread_count''
     = Some (IntCookie 7)"
proof -
  let ?self = "sample_request Map.empty []"
  let ?w = "sample_world\<lparr>cookies := [''ioi_unread_count'' \<mapsto> IntCookie 4]\<rparr>"
  have h3: "prev_unread_count ?self ?w = Some 4"
    by (simp add: prev_unread_count_def sample_request_def sample_contest_def)
  show ?thesis
    using fetch_unread_counter [OF sample_fetch_hyps(1,2) h3, THEN conjunct1]
    by (simp add: sample_request_def sample_contest_def alice_def
        spec_selected_reply_def List.map_filter_def)
qed

text \<open>
  Claim C5. The first fetch returns the queued ad-hoc notifications after the durable
  events and deletes the queue entry of the username; the same request repeated on the
  resulting state returns the durable events only, none of which is of type
  \<^verbatim>\<open>notification\<close>.
\<close>

theorem fetch_drains_adhoc_once:
  assumes "current_user self = Some p"
    and "float_datetime ext (get_argument self ''last_notification'' ''0'') = Some l"
    and "prev_unread_count self w = Some prev"
  shows "fst (NotificationsHandler_get ext self w) =
           WriteJson (durable_events self p l @
             map notification_event
               (case notifications w (p_username p) of None \<Rightarrow> [] | Some ns \<Rightarrow> ns))
       \<and> notifications (snd (NotificationsHandler_get ext self w)) (p_username p) = None
       \<and> fst (NotificationsHandler_get ext self (snd (NotificationsHandler_get ext self w))) =
           WriteJson (durable_events self p l)
       \<and> filter (\<lambda>e. ev_type e = ''notification'') (durable_events self p l) = []"
proof -
  let ?w1 = "snd (NotificationsHandler_get ext self w)"
  have first: "NotificationsHandler_get ext self w =
     (WriteJson (durable_events self p l @
        map notification_event
          (case notifications w (p_username p) of None \<Rightarrow> [] | Some ns \<Rightarrow> ns)),
      w\<lparr>cookies := (cookies w)(name (contest self) @ ''_unread_count'' \<mapsto>
            IntCookie (int (length (durable_events self p l)) + prev)),
        notifications := (notifications w)(p_username p := None)\<rparr>)"
    by (rule get_success [OF assms])
  have drained: "notifications ?w1 (p_username p) = None"
    by (simp add: first)
  have prev1: "prev_unread_count self ?w1 =
                 Some (int (length (durable_events self p l)) + prev)"
    by (simp add: first prev_unread_count_def)
  have second: "fst (NotificationsHandler_get ext self ?w1) =
                  WriteJson (durable_events self p l)"
    by (simp add: get_success [OF assms(1,2) prev1] drained)
  show ?thesis
    using first drained second durable_events_no_notification by simp
qed

text \<open>The two fetches at the sample request.\<close>

theorem fetch_drains_adhoc_once_witness:
  "fst (NotificationsHandler_get sample_externals (sample_request Map.empty []) sample_world) =
     WriteJson
       [\<lparr>ev_type = ''announcement'', ev_timestamp = 3000000,
         ev_subject = Some ''Clarification'', ev_text = ''Task 1'', ev_level = None\<rparr>,
        \<lparr>ev_type = ''message'', ev_timestamp = 4000000, ev_subject = Some ''Hello'',
         ev_text = ''Private'', ev_level = None\<rparr>,
        \<lparr>ev_type = ''question'', ev_timestamp = 6000000, ev_subject = Some ''Yes'',
         ev_text = [], ev_level = None\<rparr>,
        \<lparr>ev_type = ''notification'', ev_timestamp = 7000000,
         ev_subject = Some ''Print job received'',
         ev_text = ''Your print job has been received.'',
         ev_level = Some NOTIFICATION_SUCCESS\<rparr>]
   \<and> notifications (snd (NotificationsHandler_get sample_externals
         (sample_request Map.empty []) sample_world)) ''alice'' = None
   \<and> fst (NotificationsHandler_get sample_externals (sample_request Map.empty [])
         (snd (NotificationsHandler_get sample_externals
            (sample_request Map.empty []) sample_world))) =
     WriteJson
       [\<lparr>ev_type = ''announcement'', ev_timestamp = 3000000,
         ev_subject = Some ''Clarification'', ev_text = ''Task 1'', ev_level = None\<rparr>,
        \<lparr>ev_type = ''message'', ev_timestamp = 4000000, ev_subject = Some ''Hello'',
         ev_text = ''Private'', ev_level = None\<rparr>,
        \<lparr>ev_type = ''question'', ev_timestamp = 6000000, ev_subject = Some ''Yes'',
         ev_text = [], ev_level = None\<rparr>]"
proof -
  have d: "durable_events (sample_request Map.empty []) alice 0 =
       [\<lparr>ev_type = ''announcement'', ev_timestamp = 3000000,
         ev_subject = Some ''Clarification'', ev_text = ''Task 1'', ev_level = None\<rparr>,
        \<lparr>ev_type = ''message'', ev_timestamp = 4000000, ev_subject = Some ''Hello'',
         ev_text = ''Private'', ev_level = None\<rparr>,
        \<lparr>ev_type = ''question'', ev_timestamp = 6000000, ev_subject = Some ''Yes'',
         ev_text = [], ev_level = None\<rparr>]"
    by (simp add: durable_events_def sample_request_def sample_contest_def alice_def
        announcement_event_def message_event_def question_event_def)
  have u: "p_username alice = ''alice''"
    by (simp add: alice_def)
  show ?thesis
    using fetch_drains_adhoc_once [OF sample_fetch_hyps(1,2,3)]
    by (simp add: d u sample_world_def notification_event_def)
qed

text \<open>
  Claim C10, as stated, fails. The sample request carries no \<^verbatim>\<open>last_notification\<close>
  argument, the contest has an announcement stamped exactly at the epoch, which is strictly
  before the request's timestamp, and the fetch neither returns it nor counts it: the lower
  bound of the window is strict as well.
\<close>

theorem fetch_default_skips_epoch_counterexample:
  "arguments (sample_request Map.empty []) ''last_notification'' = None
   \<and> \<lparr>ann_timestamp = 0, ann_subject = ''Welcome'', ann_text = ''Stamped at the epoch''\<rparr>
       \<in> set (announcements (contest (sample_request Map.empty [])))
   \<and> (0::int) < timestamp (sample_request Map.empty [])
   \<and> fst (NotificationsHandler_get sample_externals (sample_request Map.empty []) sample_world) =
     WriteJson
       [\<lparr>ev_type = ''announcement'', ev_timestamp = 3000000,
         ev_subject = Some ''Clarification'', ev_text = ''Task 1'', ev_level = None\<rparr>,
        \<lparr>ev_type = ''message'', ev_timestamp = 4000000, ev_subject = Some ''Hello'',
         ev_text = ''Private'', ev_level = None\<rparr>,
        \<lparr>ev_type = ''question'', ev_timestamp = 6000000, ev_subject = Some ''Yes'',
         ev_text = [], ev_level = None\<rparr>,
        \<lparr>ev_type = ''notification'', ev_timestamp = 7000000,
         ev_subject = Some ''Print job received'',
         ev_text = ''Your print job has been received.'',
         ev_level = Some NOTIFICATION_SUCCESS\<rparr>]
   \<and> cookies (snd (NotificationsHandler_get sample_externals (sample_request Map.empty [])
         sample_world)) ''ioi_unread_count'' = Some (IntCookie 3)"
proof -
  have d: "durable_events (sample_request Map.empty []) alice 0 =
       [\<lparr>ev_type = ''announcement'', ev_timestamp = 3000000,
         ev_subject = Some ''Clarification'', ev_text = ''Task 1'', ev_level = None\<rparr>,
        \<lparr>ev_type = ''message'', ev_timestamp = 4000000, ev_subject = Some ''Hello'',
         ev_text = ''Private'', ev_level = None\<rparr>,
        \<lparr>ev_type = ''question'', ev_timestamp = 6000000, ev_subject = Some ''Yes'',
         ev_text = [], ev_level = None\<rparr>]"
    by (simp add: durable_events_def sample_request_def sample_contest_def alice_def
        announcement_event_def message_event_def question_event_def)
  have u: "p_username alice = ''alice''"
    by (simp add: alice_def)
  have c: "name (contest (sample_request Map.empty [])) = ''ioi''"
    by (simp add: sample_request_def sample_contest_def)
  have r: "arguments (sample_request Map.empty []) ''last_notification'' = None"
    "\<lparr>ann_timestamp = 0, ann_subject = ''Welcome'', ann_text = ''Stamped at the epoch''\<rparr>
       \<in> set (announcements (contest (sample_request Map.empty [])))"
    "(0::int) < timestamp (sample_request Map.empty [])"
    by (simp_all add: sample_request_def sample_contest_def)
  have n: "notifications sample_world ''alice'' =
       Some [(7000000, ''Print job received'', ''Your print job has been received.'',
              NOTIFICATION_SUCCESS)]"
    by (simp add: sample_world_def)
  show ?thesis
    using r by (simp add: get_success [OF sample_fetch_hyps(1,2,3)] d u c n
        notification_event_def)
qed

text \<open>
  Claim C10, amended. Without a \<^verbatim>\<open>last_notification\<close> argument the handler parses
  the default \<^verbatim>\<open>"0"\<close>, the epoch, and returns every announcement, message and question
  reply stamped strictly after the epoch and strictly before the request's timestamp; the
  unread cookie grows by their number.
\<close>

theorem fetch_default_window:
  assumes "current_user self = Some p"
    and "arguments self ''last_notification'' = None"
    and "float_datetime ext ''0'' = Some 0"
    and "prev_unread_count self w = Some prev"
  shows "fst (NotificationsHandler_get ext self w) =
     WriteJson
       (map announcement_event
          (filter (\<lambda>a. 0 < ann_timestamp a \<and> ann_timestamp a < timestamp self)
             (announcements (contest self))) @
        map message_event
          (filter (\<lambda>m. 0 < msg_timestamp m \<and> msg_timestamp m < timestamp self) (messages p)) @
        List.map_filter (spec_selected_reply 0 (timestamp self)) (questions p) @
        map notification_event
          (case notifications w (p_username p) of None \<Rightarrow> [] | Some ns \<Rightarrow> ns))
   \<and> cookies (snd (NotificationsHandler_get ext self w))
        (name (contest self) @ ''_unread_count'') =
      Some (IntCookie (prev + int
        (length (filter (\<lambda>a. 0 < ann_timestamp a \<and> ann_timestamp a < timestamp self)
                   (announcements (contest self))) +
         length (filter (\<lambda>m. 0 < msg_timestamp m \<and> msg_timestamp m < timestamp self)
                   (messages p)) +
         length (List.map_filter (spec_selected_reply 0 (timestamp self)) (questions p)))))"
proof -
  have "float_datetime ext (get_argument self ''last_notification'' ''0'') = Some 0"
    using assms(2,3) by (simp add: get_argument_def)
  from get_success [OF assms(1) this assms(4)] show ?thesis
    by (simp add: durable_events_eq)
qed

text \<open>
  At the sample request: three durable events lie strictly between the epoch and second 8.
\<close>

theorem fetch_default_window_witness:
  "cookies (snd (NotificationsHandler_get sample_externals (sample_request Map.empty [])
       sample_world)) ''ioi_unread_count'' = Some (IntCookie 3)"
proof -
  show ?thesis
    using fetch_default_window [OF sample_fetch_hyps(1,4,5,3), THEN conjunct2]
    by (simp add: sample_request_def sample_contest_def alice_def
        spec_selected_reply_def List.map_filter_def)
qed

section \<open>Properties of the printing handler\<close>

text \<open>A request that passes the shape check carries exactly one file under \<^verbatim>\<open>"file"\<close>.\<close>

lemma shape_ok_single_file:
  assumes "\<not> invalid_format self"
  shows "\<exists>f. map_of (files self) ''file'' = Some [f]"
proof -
  from assms have keys: "set (map fst (files self)) = {''file''}"
    and lens: "\<forall>fs \<in> set (map snd (files self)). length fs = 1"
    by (auto simp: invalid_format_def list_ex_iff)
  from keys have "''file'' \<in> fst ` set (files self)" by auto
  then obtain v where v: "map_of (files self) ''file'' = Some v"
    by (metis domD dom_map_of_conv_image_fst)
  then have "(''file'', v) \<in> set (files self)" by (rule map_of_SomeD)
  then have "v \<in> set (map snd (files self))" by force
  with lens have "length v = 1" by blast
  then obtain f where "v = [f]" by (cases v) auto
  with v show ?thesis by blast
qed

lemma printing_disabled:
  assumes "current_user self = Some p" and "actual_phase self = 0"
    and "\<not> printing_enabled self"
  shows "PrintingHandler_post ext cfg self w = (HTTPError 404, w)"
  using assms by (simp add: PrintingHandler_post_def actual_phase_required_def)

lemma printing_quota:
  assumes "current_user self = Some p" and "actual_phase self = 0"
    and "printing_enabled self"
    and "max_jobs_per_user cfg \<le> int (length (participation_printjobs self p w))"
  shows "PrintingHandler_post ext cfg self w =
     (Redirect (ContestUrl [''printing''] []),
      add_notification (p_username p) (timestamp self) ''Too many print jobs!''
        (''You have reached the maximum limit of at most '' @
         str_int (max_jobs_per_user cfg) @ '' print jobs.'') NOTIFICATION_ERROR w)"
  using assms by (simp add: PrintingHandler_post_def actual_phase_required_def Let_def)

lemma printing_shape:
  assumes "current_user self = Some p" and "actual_phase self = 0"
    and "printing_enabled self"
    and "\<not> max_jobs_per_user cfg \<le> int (length (participation_printjobs self p w))"
    and "invalid_format self"
  shows "PrintingHandler_post ext cfg self w =
     (Redirect (ContestUrl [''printing''] []),
      add_notification (p_username p) (timestamp self) ''Invalid format!''
        ''Please select the correct files.'' NOTIFICATION_ERROR w)"
  using assms by (simp add: PrintingHandler_post_def actual_phase_required_def Let_def)

lemma printing_size:
  assumes "current_user self = Some p" and "actual_phase self = 0"
    and "printing_enabled self"
    and "\<not> max_jobs_per_user cfg \<le> int (length (participation_printjobs self p w))"
    and "\<not> invalid_format self"
    and "map_of (files self) ''file'' = Some (f # fs)"
    and "int (length (body f)) > max_print_length cfg"
  shows "PrintingHandler_post ext cfg self w =
     (Redirect (ContestUrl [''printing''] []),
      add_notification (p_username p) (timestamp self) ''File too big!''
        (''Each file must be at most '' @ str_int (max_print_length cfg) @ '' bytes long.'')
        NOTIFICATION_ERROR w)"
  using assms by (simp add: PrintingHandler_post_def actual_phase_required_def Let_def)

lemma printing_store_failed:
  assumes "current_user self = Some p" and "actual_phase self = 0"
    and "printing_enabled self"
    and "\<not> max_jobs_per_user cfg \<le> int (length (participation_printjobs self p w))"
    and "\<not> invalid_format self"
    and "map_of (files self) ''file'' = Some (f # fs)"
    and "\<not> int (length (body f)) > max_print_length cfg"
    and "put_file_content ext (body f) (print_description self p) = None"
  shows "PrintingHandler_post ext cfg self w =
     (Redirect (ContestUrl [''printing''] []),
      add_notification (p_username p) (timestamp self) ''Print job storage failed!''
        ''Please try again.'' NOTIFICATION_ERROR
        (w\<lparr>file_cacher := file_cacher w @ [(body f, print_description self p)],
           log := log w @ [StorageFailed]\<rparr>))"
  using assms by (simp add: PrintingHandler_post_def actual_phase_required_def Let_def)

lemma printing_stored:
  assumes "current_user self = Some p" and "actual_phase self = 0"
    and "printing_enabled self"
    and "\<not> max_jobs_per_user cfg \<le> int (length (participation_printjobs self p w))"
    and "\<not> invalid_format self"
    and "map_of (files self) ''file'' = Some (f # fs)"
    and "\<not> int (length (body f)) > max_print_length cfg"
    and "put_file_content ext (body f) (print_description self p) = Some d"
  shows "PrintingHandler_post ext cfg self w =
     (Redirect (ContestUrl [''printing''] []),
      add_notification (p_username p) (timestamp self) ''Print job received''
        ''Your print job has been received.'' NOTIFICATION_SUCCESS
        (w\<lparr>file_cacher := file_cacher w @ [(body f, print_description self p)],
           log := log w @ [FileStored (p_username p)],
           printjobs := printjobs w @
             [\<lparr>pj_id = Suc (length (printjobs w)), pj_timestamp = timestamp self,
               pj_participation = (name (contest self), p_username p),
               pj_filename = filename f, pj_digest = d\<rparr>],
           printing_service := printing_service w @ [Suc (length (printjobs w))]\<rparr>))"
  using assms by (simp add: PrintingHandler_post_def actual_phase_required_def Let_def)

lemma add_notification_keeps:
  "file_cacher (add_notification u t s x l w) = file_cacher w"
  "printjobs (add_notification u t s x l w) = printjobs w"
  "printing_service (add_notification u t s x l w) = printing_service w"
  "users (add_notification u t s x l w) = users w"
  "participations (add_notification u t s x l w) = participations w"
  "cookies (add_notification u t s x l w) = cookies w"
  "log (add_notification u t s x l w) = log w"
  by (simp_all add: add_notification_def)

lemma printing_store_reached:
  assumes "current_user self = Some p" and "actual_phase self = 0"
    and "printing_enabled self"
    and "\<not> max_jobs_per_user cfg \<le> int (length (participation_printjobs self p w))"
    and "\<not> invalid_format self"
    and "map_of (files self) ''file'' = Some (f # fs)"
    and "\<not> int (length (body f)) > max_print_length cfg"
  shows "file_cacher (snd (PrintingHandler_post ext cfg self w)) =
           file_cacher w @ [(body f, print_description self p)]"
proof (cases "put_file_content ext (body f) (print_description self p)")
  case None
  show ?thesis
    by (simp add: printing_store_failed [OF assms None] add_notification_keeps)
next
  case (Some d)
  show ?thesis
    by (simp add: printing_stored [OF assms Some] add_notification_keeps)
qed

lemma printing_accepted_counts:
  assumes "current_user self = Some p" and "actual_phase self = 0"
    and "printing_enabled self"
    and "\<not> max_jobs_per_user cfg \<le> int (length (participation_printjobs self p w))"
    and "\<not> invalid_format self"
    and "map_of (files self) ''file'' = Some (f # fs)"
    and "\<not> int (length (body f)) > max_print_length cfg"
    and "put_file_content ext (body f) (print_description self p) = Some d"
  shows "length (participation_printjobs self p (snd (PrintingHandler_post ext cfg self w))) =
           Suc (length (participation_printjobs self p w))"
  by (simp add: printing_stored [OF assms] participation_printjobs_def add_notification_keeps)

text \<open>
  Claim C3. For an authenticated request in phase 0 the checks of the print job intake
  run in this order, each deciding the outcome whatever the later ones would say:
  printing disabled gives 404 and nothing else; otherwise a reached quota gives the
  notification ``Too many print jobs!''; otherwise a wrong shape of the upload gives
  ``Invalid format!''; otherwise exactly one file is present, and a file longer than the
  limit gives ``File too big!''; otherwise the file is put into the file cacher. In each of
  the three failures before the store step the new state is the old one with the error
  notification queued: the file cacher, the print job rows and the printing service are
  untouched. In particular, with \<open>N\<close> jobs present and a limit of \<open>N\<close>, the next
  submission is refused for quota, with no effect but that notification; and an accepted
  submission adds exactly one job of the participation, so the submission refused after
  \<open>N\<close> accepted ones from none is the one numbered \<open>N + 1\<close>.
\<close>

theorem submit_check_order:
  assumes "current_user self = Some p" and "actual_phase self = 0"
  shows
    "(let r = PrintingHandler_post ext cfg self w;
          old_count = int (length (participation_printjobs self p w));
          fallback = Redirect (ContestUrl [''printing''] []);
          untouched = (\<lambda>w'. file_cacher w' = file_cacher w \<and> printjobs w' = printjobs w
                            \<and> printing_service w' = printing_service w)
      in
      (\<not> printing_enabled self \<longrightarrow> r = (HTTPError 404, w))
      \<and> (printing_enabled self \<and> max_jobs_per_user cfg \<le> old_count \<longrightarrow>
           r = (fallback,
                add_notification (p_username p) (timestamp self) ''Too many print jobs!''
                  (''You have reached the maximum limit of at most '' @
                   str_int (max_jobs_per_user cfg) @ '' print jobs.'') NOTIFICATION_ERROR w)
           \<and> untouched (snd r))
      \<and> (printing_enabled self \<and> old_count < max_jobs_per_user cfg \<and> invalid_format self \<longrightarrow>
           r = (fallback,
                add_notification (p_username p) (timestamp self) ''Invalid format!''
                  ''Please select the correct files.'' NOTIFICATION_ERROR w)
           \<and> untouched (snd r))
      \<and> (printing_enabled self \<and> old_count < max_jobs_per_user cfg \<and> \<not> invalid_format self \<longrightarrow>
           (\<exists>f. map_of (files self) ''file'' = Some [f]
              \<and> (if max_print_length cfg < int (length (body f))
                  then r = (fallback,
                            add_notification (p_username p) (timestamp self) ''File too big!''
                              (''Each file must be at most '' @
                               str_int (max_print_length cfg) @ '' bytes long.'')
                              NOTIFICATION_ERROR w)
                       \<and> untouched (snd r)
                  else fst r = fallback
                       \<and> file_cacher (snd r) =
                           file_cacher w @ [(body f, print_description self p)])))
      \<and> (printing_enabled self \<and> max_jobs_per_user cfg = int N
           \<and> length (participation_printjobs self p w) = N \<longrightarrow>
           fst r = fallback \<and> untouched (snd r)
           \<and> notifications (snd r) (p_username p) =
               Some ((case notifications w (p_username p) of None \<Rightarrow> [] | Some ns \<Rightarrow> ns) @
                     [(timestamp self, ''Too many print jobs!'',
                       ''You have reached the maximum limit of at most '' @
                       str_int (int N) @ '' print jobs.'', NOTIFICATION_ERROR)]))
      \<and> (printing_enabled self \<and> old_count < max_jobs_per_user cfg \<and> \<not> invalid_format self
           \<and> map_of (files self) ''file'' = Some [g]
           \<and> int (length (body g)) \<le> max_print_length cfg
           \<and> put_file_content ext (body g) (print_description self p) = Some d \<longrightarrow>
           length (participation_printjobs self p (snd r)) =
             Suc (length (participation_printjobs self p w))))"
proof -
  let ?r = "PrintingHandler_post ext cfg self w"
  let ?c = "int (length (participation_printjobs self p w))"
  have gate: "?r = (HTTPError 404, w)" if "\<not> printing_enabled self"
    using printing_disabled [OF assms that] .
  have quota: "?r = (Redirect (ContestUrl [''printing''] []),
        add_notification (p_username p) (timestamp self) ''Too many print jobs!''
          (''You have reached the maximum limit of at most '' @
           str_int (max_jobs_per_user cfg) @ '' print jobs.'') NOTIFICATION_ERROR w)"
    if "printing_enabled self" "max_jobs_per_user cfg \<le> ?c"
    using printing_quota [OF assms that] .
  have shape: "?r = (Redirect (ContestUrl [''printing''] []),
        add_notification (p_username p) (timestamp self) ''Invalid format!''
          ''Please select the correct files.'' NOTIFICATION_ERROR w)"
    if "printing_enabled self" "?c < max_jobs_per_user cfg" "invalid_format self"
    using printing_shape [OF assms that(1) _ that(3)] that(2) by simp
  have rest: "\<exists>f. map_of (files self) ''file'' = Some [f]
              \<and> (if max_print_length cfg < int (length (body f))
                  then ?r = (Redirect (ContestUrl [''printing''] []),
                            add_notification (p_username p) (timestamp self) ''File too big!''
                              (''Each file must be at most '' @
                               str_int (max_print_length cfg) @ '' bytes long.'')
                              NOTIFICATION_ERROR w)
                  else fst ?r = Redirect (ContestUrl [''printing''] [])
                       \<and> file_cacher (snd ?r) =
                           file_cacher w @ [(body f, print_description self p)])"
    if en: "printing_enabled self" and q: "?c < max_jobs_per_user cfg"
      and sh: "\<not> invalid_format self"
  proof -
    from shape_ok_single_file [OF sh] obtain f where f: "map_of (files self) ''file'' = Some [f]"
      by blast
    from q have q': "\<not> max_jobs_per_user cfg \<le> ?c" by simp
    show ?thesis
    proof (cases "max_print_length cfg < int (length (body f))")
      case True
      with printing_size [OF assms en q' sh f] f show ?thesis by auto
    next
      case False
      then have sz: "\<not> int (length (body f)) > max_print_length cfg" by simp
      have "fst ?r = Redirect (ContestUrl [''printing''] [])"
      proof (cases "put_file_content ext (body f) (print_description self p)")
        case None
        show ?thesis by (simp add: printing_store_failed [OF assms en q' sh f sz None])
      next
        case (Some d)
        show ?thesis by (simp add: printing_stored [OF assms en q' sh f sz Some])
      qed
      with printing_store_reached [OF assms en q' sh f sz] f False show ?thesis by auto
    qed
  qed
  have count: "length (participation_printjobs self p (snd ?r)) =
                 Suc (length (participation_printjobs self p w))"
    if "printing_enabled self" "?c < max_jobs_per_user cfg" "\<not> invalid_format self"
      "map_of (files self) ''file'' = Some [g]"
      "int (length (body g)) \<le> max_print_length cfg"
      "put_file_content ext (body g) (print_description self p) = Some d"
    using printing_accepted_counts [OF assms that(1) _ that(3,4) _ that(6)] that(2,5)
    by simp
  show ?thesis
    unfolding Let_def
    using gate quota shape rest count
    by (auto simp: add_notification_keeps) (auto simp: add_notification_def)
qed


lemma sample_print_hyps:
  "current_user (sample_request Map.empty fs) = Some alice"
  "actual_phase (sample_request Map.empty fs) = 0"
  "printing_enabled (sample_request Map.empty fs)"
  by (simp_all add: sample_request_def)

text \<open>
  With a limit of 2 and two jobs present, the third submission is refused and writes
  nothing; two files under \<^verbatim>\<open>file\<close>, and a single file under another field name, are
  both refused as invalid format; and of three submissions in a row, starting without
  jobs, the third leaves the file cacher and the print job rows as the second left them.
\<close>

theorem submit_check_order_witness:
  "fst (PrintingHandler_post sample_externals sample_config
          (sample_request Map.empty [(''file'', [\<lparr>filename = ''a.txt'', body = ''hello''\<rparr>])])
          (sample_world\<lparr>printjobs := [sample_job 1, sample_job 2]\<rparr>)) =
     Redirect (ContestUrl [''printing''] [])
   \<and> file_cacher (snd (PrintingHandler_post sample_externals sample_config
          (sample_request Map.empty [(''file'', [\<lparr>filename = ''a.txt'', body = ''hello''\<rparr>])])
          (sample_world\<lparr>printjobs := [sample_job 1, sample_job 2]\<rparr>))) = []
   \<and> printjobs (snd (PrintingHandler_post sample_externals sample_config
          (sample_request Map.empty [(''file'', [\<lparr>filename = ''a.txt'', body = ''hello''\<rparr>])])
          (sample_world\<lparr>printjobs := [sample_job 1, sample_job 2]\<rparr>))) =
       [sample_job 1, sample_job 2]
   \<and> notifications (snd (PrintingHandler_post sample_externals sample_config
          (sample_request Map.empty [(''file'', [\<lparr>filename = ''a.txt'', body = ''hello''\<rparr>])])
          (sample_world\<lparr>printjobs := [sample_job 1, sample_job 2]\<rparr>))) ''alice'' =
       Some [(7000000, ''Print job received'', ''Your print job has been received.'',
              NOTIFICATION_SUCCESS),
             (8000000, ''Too many print jobs!'',
              ''You have reached the maximum limit of at most 2 print jobs.'',
              NOTIFICATION_ERROR)]
   \<and> PrintingHandler_post sample_externals sample_config
        (sample_request Map.empty
           [(''file'', [\<lparr>filename = ''a.txt'', body = ''hello''\<rparr>,
                        \<lparr>filename = ''b.txt'', body = ''world''\<rparr>])])
        sample_world =
       (Redirect (ContestUrl [''printing''] []),
        add_notification ''alice'' 8000000 ''Invalid format!''
          ''Please select the correct files.'' NOTIFICATION_ERROR sample_world)
   \<and> PrintingHandler_post sample_externals sample_config
        (sample_request Map.empty [(''doc'', [\<lparr>filename = ''a.txt'', body = ''hello''\<rparr>])])
        sample_world =
       (Redirect (ContestUrl [''printing''] []),
        add_notification ''alice'' 8000000 ''Invalid format!''
          ''Please select the correct files.'' NOTIFICATION_ERROR sample_world)
   \<and> fst (PrintingHandler_post sample_externals sample_config
          (sample_request Map.empty [(''file'', [\<lparr>filename = ''a.txt'', body = ''hello''\<rparr>])])
          (snd (PrintingHandler_post sample_externals sample_config
             (sample_request Map.empty [(''file'', [\<lparr>filename = ''a.txt'', body = ''hello''\<rparr>])])
             (snd (PrintingHandler_post sample_externals sample_config
                (sample_request Map.empty
                   [(''file'', [\<lparr>filename = ''a.txt'', body = ''hello''\<rparr>])])
                sample_world))))) =
     Redirect (ContestUrl [''printing''] [])
   \<and> file_cacher (snd (PrintingHandler_post sample_externals sample_config
          (sample_request Map.empty [(''file'', [\<lparr>filename = ''a.txt'', body = ''hello''\<rparr>])])
          (snd (PrintingHandler_post sample_externals sample_config
             (sample_request Map.empty [(''file'', [\<lparr>filename = ''a.txt'', body = ''hello''\<rparr>])])
             (snd (PrintingHandler_post sample_externals sample_config
                (sample_request Map.empty
                   [(''file'', [\<lparr>filename = ''a.txt'', body = ''hello''\<rparr>])])
                sample_world)))))) =
     file_cacher (snd (PrintingHandler_post sample_externals sample_config
             (sample_request Map.empty [(''file'', [\<lparr>filename = ''a.txt'', body = ''hello''\<rparr>])])
             (snd (PrintingHandler_post sample_externals sample_config
                (sample_request Map.empty
                   [(''file'', [\<lparr>filename = ''a.txt'', body = ''hello''\<rparr>])])
                sample_world))))
   \<and> printjobs (snd (PrintingHandler_post sample_externals sample_config
          (sample_request Map.empty [(''file'', [\<lparr>filename = ''a.txt'', body = ''hello''\<rparr>])])
          (snd (PrintingHandler_post sample_externals sample_config
             (sample_request Map.empty [(''file'', [\<lparr>filename = ''a.txt'', body = ''hello''\<rparr>])])
             (snd (PrintingHandler_post sample_externals sample_config
                (sample_request Map.empty
                   [(''file'', [\<lparr>filename = ''a.txt'', body = ''hello''\<rparr>])])
                sample_world)))))) =
     printjobs (snd (PrintingHandler_post sample_externals sample_config
             (sample_request Map.empty [(''file'', [\<lparr>filename = ''a.txt'', body = ''hello''\<rparr>])])
             (snd (PrintingHandler_post sample_externals sample_config
                (sample_request Map.empty
                   [(''file'', [\<lparr>filename = ''a.txt'', body = ''hello''\<rparr>])])
                sample_world))))"
proof -
  let ?one = "[(''file'', [\<lparr>filename = ''a.txt'', body = ''hello''\<rparr>])]"
  let ?two = "[(''file'', [\<lparr>filename = ''a.txt'', body = ''hello''\<rparr>,
                           \<lparr>filename = ''b.txt'', body = ''world''\<rparr>])]"
  let ?doc = "[(''doc'', [\<lparr>filename = ''a.txt'', body = ''hello''\<rparr>])]"
  let ?full = "sample_world\<lparr>printjobs := [sample_job 1, sample_job 2]\<rparr>"
  have u: "p_username alice = ''alice''"
    by (simp add: alice_def)
  have full: "length (participation_printjobs (sample_request Map.empty ?one) alice ?full) = 2"
    "max_jobs_per_user sample_config = int 2"
    by (simp_all add: participation_printjobs_def sample_request_def sample_contest_def
        sample_job_def sample_config_def u)
  have none: "int (length (participation_printjobs (sample_request Map.empty fs) alice
                sample_world)) < max_jobs_per_user sample_config" for fs
    by (simp add: participation_printjobs_def sample_world_def sample_config_def)
  have bad: "invalid_format (sample_request Map.empty ?two)"
    "invalid_format (sample_request Map.empty ?doc)"
    by (simp_all add: invalid_format_def sample_request_def)
  have ts: "timestamp (sample_request Map.empty fs) = 8000000" for fs
    by (simp add: sample_request_def)
  have old: "notifications sample_world ''alice'' =
       Some [(7000000, ''Print job received'', ''Your print job has been received.'',
              NOTIFICATION_SUCCESS)]"
    "file_cacher sample_world = []"
    by (simp_all add: sample_world_def)
  have n: "str_int 2 = ''2''"
    by (simp add: str_int_def str_nat.simps)
  note a = submit_check_order [OF sample_print_hyps(1) [of ?one] sample_print_hyps(2) [of ?one],
      where ext = sample_externals and cfg = sample_config and w = ?full and N = 2,
      unfolded Let_def, THEN conjunct2, THEN conjunct2, THEN conjunct2, THEN conjunct2]
  note b = submit_check_order [OF sample_print_hyps(1) [of ?two] sample_print_hyps(2) [of ?two],
      where ext = sample_externals and cfg = sample_config and w = sample_world and N = 2,
      unfolded Let_def, THEN conjunct2, THEN conjunct2, THEN conjunct1]
  note c = submit_check_order [OF sample_print_hyps(1) [of ?doc] sample_print_hyps(2) [of ?doc],
      where ext = sample_externals and cfg = sample_config and w = sample_world and N = 2,
      unfolded Let_def, THEN conjunct2, THEN conjunct2, THEN conjunct1]
  from a full have 1: "fst (PrintingHandler_post sample_externals sample_config
          (sample_request Map.empty ?one) ?full) = Redirect (ContestUrl [''printing''] [])"
    "file_cacher (snd (PrintingHandler_post sample_externals sample_config
          (sample_request Map.empty ?one) ?full)) = []"
    "printjobs (snd (PrintingHandler_post sample_externals sample_config
          (sample_request Map.empty ?one) ?full)) = [sample_job 1, sample_job 2]"
    "notifications (snd (PrintingHandler_post sample_externals sample_config
          (sample_request Map.empty ?one) ?full)) ''alice'' =
       Some [(7000000, ''Print job received'', ''Your print job has been received.'',
              NOTIFICATION_SUCCESS),
             (8000000, ''Too many print jobs!'',
              ''You have reached the maximum limit of at most 2 print jobs.'',
              NOTIFICATION_ERROR)]"
    by (simp_all add: sample_print_hyps u ts old n)
  from b bad(1) none have 2: "PrintingHandler_post sample_externals sample_config
        (sample_request Map.empty ?two) sample_world =
       (Redirect (ContestUrl [''printing''] []),
        add_notification ''alice'' 8000000 ''Invalid format!''
          ''Please select the correct files.'' NOTIFICATION_ERROR sample_world)"
    by (simp add: sample_print_hyps u ts)
  from c bad(2) none have 3: "PrintingHandler_post sample_externals sample_config
        (sample_request Map.empty ?doc) sample_world =
       (Redirect (ContestUrl [''printing''] []),
        add_notification ''alice'' 8000000 ''Invalid format!''
          ''Please select the correct files.'' NOTIFICATION_ERROR sample_world)"
    by (simp add: sample_print_hyps u ts)
  let ?f = "\<lparr>filename = ''a.txt'', body = ''hello''\<rparr>"
  let ?r = "sample_request Map.empty [(''file'', [?f])]"
  let ?post = "PrintingHandler_post sample_externals sample_config ?r"
  let ?w1 = "snd (?post sample_world)"
  let ?w2 = "snd (?post ?w1)"
  have en: "printing_enabled ?r" "\<not> invalid_format ?r" "map_of (files ?r) ''file'' = Some [?f]"
    "int (length (body ?f)) \<le> max_print_length sample_config"
    "put_file_content sample_externals (body ?f) (print_description ?r alice) = Some ''d:hell''"
    "max_jobs_per_user sample_config = 2"
    by (simp_all add: sample_request_def invalid_format_def sample_config_def
        sample_externals_def)
  have c0: "length (participation_printjobs ?r alice sample_world) = 0"
    by (simp add: participation_printjobs_def sample_world_def)
  note step = submit_check_order [OF sample_print_hyps(1) [of "[(''file'', [?f])]"]
      sample_print_hyps(2) [of "[(''file'', [?f])]"],
      where ext = sample_externals and cfg = sample_config and g = ?f and d = "''d:hell''"
        and N = 2,
      unfolded Let_def, THEN conjunct2, THEN conjunct2, THEN conjunct2, THEN conjunct2]
  from step [of sample_world, THEN conjunct2] en c0
  have c1: "length (participation_printjobs ?r alice ?w1) = 1"
    by simp
  from step [of ?w1, THEN conjunct2] en c1
  have c2: "length (participation_printjobs ?r alice ?w2) = 2"
    by simp
  from step [of ?w2, THEN conjunct1] en c2
  have 4: "fst (PrintingHandler_post sample_externals sample_config
          (sample_request Map.empty [(''file'', [\<lparr>filename = ''a.txt'', body = ''hello''\<rparr>])])
          (snd (PrintingHandler_post sample_externals sample_config
             (sample_request Map.empty [(''file'', [\<lparr>filename = ''a.txt'', body = ''hello''\<rparr>])])
             (snd (PrintingHandler_post sample_externals sample_config
                (sample_request Map.empty
                   [(''file'', [\<lparr>filename = ''a.txt'', body = ''hello''\<rparr>])])
                sample_world))))) =
     Redirect (ContestUrl [''printing''] [])
   \<and> file_cacher (snd (PrintingHandler_post sample_externals sample_config
          (sample_request Map.empty [(''file'', [\<lparr>filename = ''a.txt'', body = ''hello''\<rparr>])])
          (snd (PrintingHandler_post sample_externals sample_config
             (sample_request Map.empty [(''file'', [\<lparr>filename = ''a.txt'', body = ''hello''\<rparr>])])
             (snd (PrintingHandler_post sample_externals sample_config
                (sample_request Map.empty
                   [(''file'', [\<lparr>filename = ''a.txt'', body = ''hello''\<rparr>])])
                sample_world)))))) =
     file_cacher (snd (PrintingHandler_post sample_externals sample_config
             (sample_request Map.empty [(''file'', [\<lparr>filename = ''a.txt'', body = ''hello''\<rparr>])])
             (snd (PrintingHandler_post sample_externals sample_config
                (sample_request Map.empty
                   [(''file'', [\<lparr>filename = ''a.txt'', body = ''hello''\<rparr>])])
                sample_world))))
   \<and> printjobs (snd (PrintingHandler_post sample_externals sample_config
          (sample_request Map.empty [(''file'', [\<lparr>filename = ''a.txt'', body = ''hello''\<rparr>])])
          (snd (PrintingHandler_post sample_externals sample_config
             (sample_request Map.empty [(''file'', [\<lparr>filename = ''a.txt'', body = ''hello''\<rparr>])])
             (snd (PrintingHandler_post sample_externals sample_config
                (sample_request Map.empty
                   [(''file'', [\<lparr>filename = ''a.txt'', body = ''hello''\<rparr>])])
                sample_world)))))) =
     printjobs (snd (PrintingHandler_post sample_externals sample_config
             (sample_request Map.empty [(''file'', [\<lparr>filename = ''a.txt'', body = ''hello''\<rparr>])])
             (snd (PrintingHandler_post sample_externals sample_config
                (sample_request Map.empty
                   [(''file'', [\<lparr>filename = ''a.txt'', body = ''hello''\<rparr>])])
                sample_world))))"
    by simp
  from 1 2 3 4 show ?thesis by simp
qed

text \<open>
  Claim C9. For a request that passes the feature gate, the quota and the shape check
  with the single file \<open>f\<close>: when the length of its body is at most
  \<^verbatim>\<open>max_print_length\<close> the body is put into the file cacher; when it is longer the
  request ends with the notification ``File too big!'' and neither the file cacher nor the
  print job rows change.
\<close>

theorem submit_size_limit:
  assumes "current_user self = Some p" and "actual_phase self = 0"
    and "printing_enabled self"
    and "int (length (participation_printjobs self p w)) < max_jobs_per_user cfg"
    and "\<not> invalid_format self"
    and "map_of (files self) ''file'' = Some [f]"
  shows
    "(int (length (body f)) \<le> max_print_length cfg \<longrightarrow>
        fst (PrintingHandler_post ext cfg self w) = Redirect (ContestUrl [''printing''] [])
        \<and> file_cacher (snd (PrintingHandler_post ext cfg self w)) =
            file_cacher w @ [(body f, print_description self p)])
     \<and> (max_print_length cfg < int (length (body f)) \<longrightarrow>
        PrintingHandler_post ext cfg self w =
          (Redirect (ContestUrl [''printing''] []),
           add_notification (p_username p) (timestamp self) ''File too big!''
             (''Each file must be at most '' @ str_int (max_print_length cfg) @
              '' bytes long.'') NOTIFICATION_ERROR w)
        \<and> file_cacher (snd (PrintingHandler_post ext cfg self w)) = file_cacher w
        \<and> printjobs (snd (PrintingHandler_post ext cfg self w)) = printjobs w)"
proof (intro conjI impI)
  from assms(4)
  have q: "\<not> max_jobs_per_user cfg \<le> int (length (participation_printjobs self p w))"
    by simp
  {
    assume "int (length (body f)) \<le> max_print_length cfg"
    then have sz: "\<not> int (length (body f)) > max_print_length cfg" by simp
    show "file_cacher (snd (PrintingHandler_post ext cfg self w)) =
            file_cacher w @ [(body f, print_description self p)]"
      by (rule printing_store_reached [OF assms(1,2,3) q assms(5,6) sz])
    show "fst (PrintingHandler_post ext cfg self w) = Redirect (ContestUrl [''printing''] [])"
    proof (cases "put_file_content ext (body f) (print_description self p)")
      case None
      show ?thesis by (simp add: printing_store_failed [OF assms(1,2,3) q assms(5,6) sz None])
    next
      case (Some d)
      show ?thesis by (simp add: printing_stored [OF assms(1,2,3) q assms(5,6) sz Some])
    qed
  }
  {
    assume big: "max_print_length cfg < int (length (body f))"
    show r: "PrintingHandler_post ext cfg self w =
          (Redirect (ContestUrl [''printing''] []),
           add_notification (p_username p) (timestamp self) ''File too big!''
             (''Each file must be at most '' @ str_int (max_print_length cfg) @
              '' bytes long.'') NOTIFICATION_ERROR w)"
      by (rule printing_size [OF assms(1,2,3) q assms(5,6) big])
    show "file_cacher (snd (PrintingHandler_post ext cfg self w)) = file_cacher w"
      by (simp add: r add_notification_keeps)
    show "printjobs (snd (PrintingHandler_post ext cfg self w)) = printjobs w"
      by (simp add: r add_notification_keeps)
  }
qed

text \<open>
  With a limit of 1000 bytes: a body of 1000 bytes reaches the file cacher, a body of
  1001 bytes is refused as too big.
\<close>

theorem submit_size_limit_witness:
  "file_cacher (snd (PrintingHandler_post sample_externals sample_config
      (sample_request Map.empty
         [(''file'', [\<lparr>filename = ''a.txt'', body = replicate 1000 CHR ''x''\<rparr>])])
      sample_world)) = [(replicate 1000 CHR ''x'', ''Print job sent by alice at 8.'')]
   \<and> PrintingHandler_post sample_externals sample_config
        (sample_request Map.empty
           [(''file'', [\<lparr>filename = ''a.txt'', body = replicate 1001 CHR ''x''\<rparr>])])
        sample_world =
       (Redirect (ContestUrl [''printing''] []),
        add_notification ''alice'' 8000000 ''File too big!''
          ''Each file must be at most 1000 bytes long.'' NOTIFICATION_ERROR sample_world)
   \<and> file_cacher (snd (PrintingHandler_post sample_externals sample_config
        (sample_request Map.empty
           [(''file'', [\<lparr>filename = ''a.txt'', body = replicate 1001 CHR ''x''\<rparr>])])
        sample_world)) = []"
proof -
  let ?fit = "\<lparr>filename = ''a.txt'', body = replicate 1000 CHR ''x''\<rparr>"
  let ?big = "\<lparr>filename = ''a.txt'', body = replicate 1001 CHR ''x''\<rparr>"
  have u: "p_username alice = ''alice''"
    by (simp add: alice_def)
  have none: "int (length (participation_printjobs (sample_request Map.empty fs) alice
                sample_world)) < max_jobs_per_user sample_config" for fs
    by (simp add: participation_printjobs_def sample_world_def sample_config_def)
  have ok: "\<not> invalid_format (sample_request Map.empty [(''file'', [x])])" for x
    by (simp add: invalid_format_def sample_request_def)
  have fl: "map_of (files (sample_request Map.empty [(''file'', [x])])) ''file'' = Some [x]" for x
    by (simp add: sample_request_def)
  have ts: "timestamp (sample_request Map.empty fs) = 8000000" for fs
    by (simp add: sample_request_def)
  have d: "print_description (sample_request Map.empty fs) alice =
             ''Print job sent by alice at 8.''" for fs
    by (simp add: print_description_def u ts str_timestamp_def str_int_def str_nat.simps)
  have m: "max_print_length sample_config = 1000" "str_int 1000 = ''1000''"
    by (simp_all add: sample_config_def str_int_def str_nat.simps)
  have e: "file_cacher sample_world = []"
    by (simp add: sample_world_def)
  note a = submit_size_limit [OF sample_print_hyps [of "[(''file'', [?fit])]"]
      none [of "[(''file'', [?fit])]"] ok [of ?fit] fl [of ?fit], where ext = sample_externals]
  note b = submit_size_limit [OF sample_print_hyps [of "[(''file'', [?big])]"]
      none [of "[(''file'', [?big])]"] ok [of ?big] fl [of ?big], where ext = sample_externals]
  from a have 1: "file_cacher (snd (PrintingHandler_post sample_externals sample_config
      (sample_request Map.empty [(''file'', [?fit])]) sample_world)) =
        [(replicate 1000 CHR ''x'', ''Print job sent by alice at 8.'')]"
    by (simp add: m d e)
  from b have 2: "PrintingHandler_post sample_externals sample_config
        (sample_request Map.empty [(''file'', [?big])]) sample_world =
       (Redirect (ContestUrl [''printing''] []),
        add_notification ''alice'' 8000000 ''File too big!''
          ''Each file must be at most 1000 bytes long.'' NOTIFICATION_ERROR sample_world)"
    "file_cacher (snd (PrintingHandler_post sample_externals sample_config
        (sample_request Map.empty [(''file'', [?big])]) sample_world)) = []"
    by (simp_all add: m u ts e add_notification_keeps)
  from 1 2 show ?thesis by simp
qed

section \<open>Properties of the login handler\<close>

lemma login_failure_reply:
  assumes "spec_login_failure ext self w = Some e"
  shows "fst (LoginHandler_post ext self w) = Redirect (error_page self)"
    and "cookies (snd (LoginHandler_post ext self w)) = cookies w"
  using assms
  by (auto simp: spec_login_failure_def LoginHandler_post_def Let_def resolve_participation_def
      split: option.splits if_splits)

lemma login_success_reply:
  assumes "spec_login_failure ext self w = None"
  shows "fst (LoginHandler_post ext self w) = Redirect (next_page self)"
  using assms
  by (auto simp: spec_login_failure_def LoginHandler_post_def Let_def
      split: option.splits if_splits)

lemma login_log_no_user:
  assumes "spec_login_failure ext self w = Some NoSuchUser"
  shows "log (snd (LoginHandler_post ext self w)) = log w"
  using assms
  by (auto simp: spec_login_failure_def LoginHandler_post_def Let_def
      split: option.splits if_splits)

lemma login_log_bad_password:
  assumes "spec_login_failure ext self w = Some BadPassword"
  shows "log (snd (LoginHandler_post ext self w)) = log w @
     [LoginError (filter_ascii ext (get_argument self ''username'' []))
        (filter_ascii ext (get_argument self ''password'' [])) (remote_ip self)]"
  using assms
  by (auto simp: spec_login_failure_def LoginHandler_post_def Let_def resolve_participation_def
      split: option.splits if_splits)

lemma login_keeps_users:
  "users (snd (LoginHandler_post ext self w)) = users w"
  by (auto simp: LoginHandler_post_def Let_def resolve_participation_def
      split: option.splits if_splits)

lemma split_1_snd_prefix:
  "split_1_snd CHR '':'' (''bcrypt:'' @ s) = s"
  "split_1_snd CHR '':'' (''text:'' @ s) = s"
  by (simp_all add: split_1_snd_def)

lemma startswith_prefix:
  "startswith (''bcrypt:'' @ s) ''bcrypt:''"
  "startswith (''text:'' @ s) ''text:''"
  "\<not> startswith (''text:'' @ s) ''bcrypt:''"
  by (simp_all add: startswith_def)

lemma validate_legacy:
  assumes "\<not> startswith storedpw ''bcrypt:''" and "\<not> startswith storedpw ''text:''"
    and "sha256_hexdigest ext (pw @ secret_key cfg) = storedpw"
    and "bcrypt_hashpw ext pw salt = Some h"
  shows "validate_password ext cfg salt pw storedpw = Inr (True, ''bcrypt:'' @ h)"
  using assms by (simp add: validate_password_def)

lemma validate_bcrypt:
  assumes "bcrypt_hashpw ext pw h = Some h'"
  shows "validate_password ext cfg salt pw (''bcrypt:'' @ h) = Inr (h' = h, ''bcrypt:'' @ h)"
  using assms
  by (simp add: validate_password_def startswith_prefix split_1_snd_prefix del: append.simps)

lemma validate_text:
  "validate_password ext cfg salt pw (''text:'' @ s) = Inr (pw = s, ''text:'' @ s)"
  by (simp add: validate_password_def startswith_prefix split_1_snd_prefix del: append.simps)

lemma sample_login_alice:
  "spec_login_failure sample_externals
     (sample_request (login_arguments ''alice'' ''secret'' nxt) []) sample_world = None"
  by (cases nxt)
     (simp_all add: spec_login_failure_def sample_request_def login_arguments_def
      get_argument_def sample_world_def resolve_participation_def sample_contest_def
      correct_password_def alice_def sample_externals_def ip_rejected_def)

lemma login_keeps_participations:
  assumes "participations w k = Some p"
  shows "participations (snd (LoginHandler_post ext self w)) k = Some p"
  using assms
  by (auto simp: LoginHandler_post_def Let_def resolve_participation_def
      split: option.splits if_splits)

lemma login_success_state:
  assumes "spec_login_failure ext self w = None"
  shows "\<exists>usr p w1.
           users w (get_argument self ''username'' []) = Some usr
         \<and> resolve_participation self (get_argument self ''username'' []) w = Some (p, w1)
         \<and> snd (LoginHandler_post ext self w) =
             w1\<lparr>log := log w1 @
                    [UserLoggedIn (filter_ascii ext (get_argument self ''username'' []))
                       (remote_ip self)],
                cookies := (cookies w1)(name (contest self) @ ''_login'' \<mapsto>
                   LoginCookie (username usr) (correct_password usr p) (now self))\<rparr>"
  using assms
  by (auto simp: spec_login_failure_def LoginHandler_post_def Let_def
      split: option.splits if_splits)

lemma resolve_participation_again:
  assumes "resolve_participation self u w = Some (p, w1)"
  shows "resolve_participation self u
           (w1\<lparr>log := l, cookies := c\<rparr>) = Some (p, w1\<lparr>log := l, cookies := c\<rparr>)"
  using assms
  by (auto simp: resolve_participation_def split: option.splits if_splits)

lemma resolve_participation_users:
  assumes "resolve_participation self u w = Some (p, w1)"
  shows "users w1 = users w"
  using assms
  by (auto simp: resolve_participation_def split: option.splits if_splits)

lemma login_again_succeeds:
  assumes "spec_login_failure ext self w = None"
  shows "spec_login_failure ext self (snd (LoginHandler_post ext self w)) = None"
proof -
  from login_success_state [OF assms] obtain usr p w1 where
    u: "users w (get_argument self ''username'' []) = Some usr"
    and r: "resolve_participation self (get_argument self ''username'' []) w = Some (p, w1)"
    and s: "snd (LoginHandler_post ext self w) =
             w1\<lparr>log := log w1 @
                    [UserLoggedIn (filter_ascii ext (get_argument self ''username'' []))
                       (remote_ip self)],
                cookies := (cookies w1)(name (contest self) @ ''_login'' \<mapsto>
                   LoginCookie (username usr) (correct_password usr p) (now self))\<rparr>"
    by blast
  from assms u r show ?thesis
    by (simp add: s spec_login_failure_def resolve_participation_again [OF r]
        resolve_participation_users [OF r] split: if_splits)
qed

lemma legacy_login_alice:
  "spec_login_failure legacy_externals
     (sample_request (login_arguments ''alice'' ''secret'' None) []) legacy_world = None"
  by (simp add: spec_login_failure_def sample_request_def login_arguments_def
      get_argument_def legacy_world_def sample_world_def resolve_participation_def
      sample_contest_def correct_password_def alice_def legacy_externals_def
      sample_externals_def sample_config_def ip_rejected_def)

text \<open>
  Claim C1, as stated, fails. The method \<^verbatim>\<open>validate_password\<close> accepts the
  password \<^verbatim>\<open>secret\<close> against the record \<^verbatim>\<open>text:secret\<close> and leaves the record
  as it is; a successful login of \<open>alice\<close>, whose record is \<^verbatim>\<open>text:secret\<close>, issues
  the session cookie and leaves her stored record in the plaintext scheme; and a
  successful login of \<open>alice\<close> against a legacy keyed-hash record leaves that record as
  stored as well.
\<close>

theorem login_upgrade_counterexample:
  "validate_password sample_externals sample_config ''s1xyz'' ''secret'' ''text:secret'' =
     Inr (True, ''text:secret'')
   \<and> users sample_world ''alice'' = Some \<lparr>username = ''alice'', password = ''text:secret''\<rparr>
   \<and> fst (LoginHandler_post sample_externals
        (sample_request (login_arguments ''alice'' ''secret'' None) []) sample_world) =
      Redirect (ContestUrl [] [])
   \<and> cookies (snd (LoginHandler_post sample_externals
        (sample_request (login_arguments ''alice'' ''secret'' None) []) sample_world))
        ''ioi_login'' = Some (LoginCookie ''alice'' ''text:secret'' 8000001)
   \<and> users (snd (LoginHandler_post sample_externals
        (sample_request (login_arguments ''alice'' ''secret'' None) []) sample_world))
        ''alice'' = Some \<lparr>username = ''alice'', password = ''text:secret''\<rparr>
   \<and> users legacy_world ''alice'' = Some \<lparr>username = ''alice'', password = ''#kterces''\<rparr>
   \<and> sha256_hexdigest legacy_externals (''secret'' @ secret_key sample_config) = ''#kterces''
   \<and> fst (LoginHandler_post legacy_externals
        (sample_request (login_arguments ''alice'' ''secret'' None) []) legacy_world) =
      Redirect (ContestUrl [] [])
   \<and> cookies (snd (LoginHandler_post legacy_externals
        (sample_request (login_arguments ''alice'' ''secret'' None) []) legacy_world))
        ''ioi_login'' = Some (LoginCookie ''alice'' ''#kterces'' 8000001)
   \<and> users (snd (LoginHandler_post legacy_externals
        (sample_request (login_arguments ''alice'' ''secret'' None) []) legacy_world))
        ''alice'' = Some \<lparr>username = ''alice'', password = ''#kterces''\<rparr>"
proof -
  let ?r = "sample_request (login_arguments ''alice'' ''secret'' None) []"
  have v: "validate_password sample_externals sample_config ''s1xyz'' ''secret''
             (''text:'' @ ''secret'') = Inr (''secret'' = ''secret'', ''text:'' @ ''secret'')"
    by (rule validate_text)
  have u: "users sample_world ''alice'' = Some \<lparr>username = ''alice'', password = ''text:secret''\<rparr>"
    "users legacy_world ''alice'' = Some \<lparr>username = ''alice'', password = ''#kterces''\<rparr>"
    "sha256_hexdigest legacy_externals (''secret'' @ secret_key sample_config) = ''#kterces''"
    by (simp_all add: sample_world_def legacy_world_def legacy_externals_def
        sample_externals_def sample_config_def)
  have n: "next_page ?r = ContestUrl [] []"
    by (simp add: next_page_def sample_request_def login_arguments_def)
  have r: "fst (LoginHandler_post sample_externals ?r sample_world) = Redirect (ContestUrl [] [])"
    "fst (LoginHandler_post legacy_externals ?r legacy_world) = Redirect (ContestUrl [] [])"
    by (simp_all add: n login_success_reply [OF sample_login_alice]
        login_success_reply [OF legacy_login_alice])
  have c: "cookies (snd (LoginHandler_post sample_externals ?r sample_world))
        ''ioi_login'' = Some (LoginCookie ''alice'' ''text:secret'' 8000001)"
    by (simp add: LoginHandler_post_def Let_def sample_request_def login_arguments_def
        get_argument_def sample_world_def resolve_participation_def sample_contest_def
        correct_password_def alice_def sample_externals_def ip_rejected_def)
  have d: "cookies (snd (LoginHandler_post legacy_externals ?r legacy_world))
        ''ioi_login'' = Some (LoginCookie ''alice'' ''#kterces'' 8000001)"
    by (simp add: LoginHandler_post_def Let_def sample_request_def login_arguments_def
        get_argument_def legacy_world_def sample_world_def resolve_participation_def
        sample_contest_def correct_password_def alice_def legacy_externals_def
        sample_externals_def sample_config_def ip_rejected_def)
  from v u r c d show ?thesis
    by (simp add: login_keeps_users)
qed

text \<open>
  Claim C1, amended. A successful login leaves every stored plaintext password record,
  of a user or of a participation, as it was stored, so that the record's scheme is still
  plaintext; and the same login repeated on the resulting state succeeds again, redirects
  to the same page and issues the cookie with the same, unchanged record.
\<close>

theorem login_keeps_plaintext_records:
  assumes "spec_login_failure ext self w = None"
  shows "(\<forall>u usr. users w u = Some usr \<and> startswith (password usr) ''text:'' \<longrightarrow>
            users (snd (LoginHandler_post ext self w)) u = Some usr)
       \<and> (\<forall>k p s. participations w k = Some p \<and> p_password p = Some s
              \<and> startswith s ''text:'' \<longrightarrow>
            participations (snd (LoginHandler_post ext self w)) k = Some p)
       \<and> spec_login_failure ext self (snd (LoginHandler_post ext self w)) = None
       \<and> fst (LoginHandler_post ext self (snd (LoginHandler_post ext self w))) =
            Redirect (next_page self)
       \<and> cookies (snd (LoginHandler_post ext self (snd (LoginHandler_post ext self w))))
            (name (contest self) @ ''_login'') =
          cookies (snd (LoginHandler_post ext self w)) (name (contest self) @ ''_login'')"
proof -
  let ?w' = "snd (LoginHandler_post ext self w)"
  have again: "spec_login_failure ext self ?w' = None"
    by (rule login_again_succeeds [OF assms])
  from login_success_state [OF assms] obtain usr p w1 where
    u: "users w (get_argument self ''username'' []) = Some usr"
    and r: "resolve_participation self (get_argument self ''username'' []) w = Some (p, w1)"
    and s: "?w' =
             w1\<lparr>log := log w1 @
                    [UserLoggedIn (filter_ascii ext (get_argument self ''username'' []))
                       (remote_ip self)],
                cookies := (cookies w1)(name (contest self) @ ''_login'' \<mapsto>
                   LoginCookie (username usr) (correct_password usr p) (now self))\<rparr>"
    by blast
  from login_success_state [OF again] obtain usr' p' w1' where
    u': "users ?w' (get_argument self ''username'' []) = Some usr'"
    and r': "resolve_participation self (get_argument self ''username'' []) ?w' = Some (p', w1')"
    and s': "snd (LoginHandler_post ext self ?w') =
             w1'\<lparr>log := log w1' @
                    [UserLoggedIn (filter_ascii ext (get_argument self ''username'' []))
                       (remote_ip self)],
                cookies := (cookies w1')(name (contest self) @ ''_login'' \<mapsto>
                   LoginCookie (username usr') (correct_password usr' p') (now self))\<rparr>"
    by blast
  have "usr' = usr"
    using u u' by (simp add: login_keeps_users)
  moreover have "p' = p"
    using r' by (simp add: s resolve_participation_again [OF r])
  moreover have "cookies (snd (LoginHandler_post ext self ?w'))
            (name (contest self) @ ''_login'') =
          Some (LoginCookie (username usr') (correct_password usr' p') (now self))"
    by (subst s') simp
  moreover have "cookies ?w' (name (contest self) @ ''_login'') =
          Some (LoginCookie (username usr) (correct_password usr p) (now self))"
    by (subst s) simp
  ultimately have c: "cookies (snd (LoginHandler_post ext self ?w'))
            (name (contest self) @ ''_login'') = cookies ?w' (name (contest self) @ ''_login'')"
    by simp
  show ?thesis
    using again c
    by (simp add: login_keeps_users login_keeps_participations login_success_reply)
qed

text \<open>
  The sample login of \<open>alice\<close>: her record is \<^verbatim>\<open>text:secret\<close> afterwards, and the
  second login succeeds.
\<close>

theorem login_keeps_plaintext_records_witness:
  "users (snd (LoginHandler_post sample_externals
        (sample_request (login_arguments ''alice'' ''secret'' None) []) sample_world))
        ''alice'' = Some \<lparr>username = ''alice'', password = ''text:secret''\<rparr>
   \<and> fst (LoginHandler_post sample_externals
        (sample_request (login_arguments ''alice'' ''secret'' None) [])
        (snd (LoginHandler_post sample_externals
           (sample_request (login_arguments ''alice'' ''secret'' None) []) sample_world))) =
      Redirect (ContestUrl [] [])"
proof -
  let ?r = "sample_request (login_arguments ''alice'' ''secret'' None) []"
  have u: "users sample_world ''alice'' = Some \<lparr>username = ''alice'', password = ''text:secret''\<rparr>"
    by (simp add: sample_world_def)
  have t: "startswith (password \<lparr>username = ''alice'', password = ''text:secret''\<rparr>) ''text:''"
    by (simp add: startswith_def)
  have n: "next_page ?r = ContestUrl [] []"
    by (simp add: next_page_def sample_request_def login_arguments_def)
  note k = login_keeps_plaintext_records [OF sample_login_alice [of None]]
  from k [THEN conjunct1, rule_format, of "''alice''"
      "\<lparr>username = ''alice'', password = ''text:secret''\<rparr>"] u t
  have 1: "users (snd (LoginHandler_post sample_externals ?r sample_world)) ''alice'' =
             Some \<lparr>username = ''alice'', password = ''text:secret''\<rparr>"
    by simp
  from k [THEN conjunct2, THEN conjunct2, THEN conjunct2, THEN conjunct1] n
  have 2: "fst (LoginHandler_post sample_externals ?r
             (snd (LoginHandler_post sample_externals ?r sample_world))) =
           Redirect (ContestUrl [] [])"
    by simp
  from 1 2 show ?thesis by simp
qed

text \<open>
  The method \<^verbatim>\<open>LoginHandler.validate_password\<close>, which the login handler does not
  call: it rewrites a legacy keyed-hash record that matches the password to
  \<^verbatim>\<open>bcrypt:\<close> followed by the fresh bcrypt hash, and a second check of the same password
  succeeds against the new record; a plaintext record that matches is accepted and left as
  it is; a bcrypt record is never rewritten.
\<close>

lemma validate_password_schemes:
  "(\<not> startswith storedpw ''bcrypt:'' \<and> \<not> startswith storedpw ''text:''
      \<and> sha256_hexdigest ext (pw @ secret_key cfg) = storedpw
      \<and> bcrypt_hashpw ext pw salt = Some h \<and> bcrypt_hashpw ext pw h = Some h \<longrightarrow>
      validate_password ext cfg salt pw storedpw = Inr (True, ''bcrypt:'' @ h)
      \<and> validate_password ext cfg salt' pw (''bcrypt:'' @ h) = Inr (True, ''bcrypt:'' @ h))
   \<and> validate_password ext cfg salt pw (''text:'' @ pw) = Inr (True, ''text:'' @ pw)
   \<and> (bcrypt_hashpw ext pw h = Some h \<longrightarrow>
      validate_password ext cfg salt pw (''bcrypt:'' @ h) = Inr (True, ''bcrypt:'' @ h))"
  by (auto simp: validate_legacy validate_bcrypt validate_text simp del: append.simps)

text \<open>The method at the sample stand-ins.\<close>

lemma validate_password_schemes_sample:
  "validate_password sample_externals sample_config ''s1xyz'' ''secret'' ''#kterces'' =
     Inr (True, ''bcrypt:s1terces'')
   \<and> validate_password sample_externals sample_config ''q7abc'' ''secret'' ''bcrypt:s1terces'' =
     Inr (True, ''bcrypt:s1terces'')
   \<and> validate_password sample_externals sample_config ''s1xyz'' ''secret'' ''text:secret'' =
     Inr (True, ''text:secret'')"
proof -
  have h: "\<not> startswith ''#kterces'' ''bcrypt:''" "\<not> startswith ''#kterces'' ''text:''"
    "sha256_hexdigest sample_externals (''secret'' @ secret_key sample_config) = ''#kterces''"
    "bcrypt_hashpw sample_externals ''secret'' ''s1xyz'' = Some ''s1terces''"
    "bcrypt_hashpw sample_externals ''secret'' ''s1terces'' = Some ''s1terces''"
    by (simp_all add: startswith_def sample_externals_def sample_config_def)
  from validate_password_schemes [of "''#kterces''" sample_externals "''secret''" sample_config
      "''s1xyz''" "''s1terces''" "''q7abc''"] h
  show ?thesis by simp
qed


text \<open>
  Claim C7. Whatever the reason of a failed login (unknown user, not enrolled, bad
  password, IP rejected, hidden participation blocked), the reply is the redirect to the
  error page, which depends on the request's \<^verbatim>\<open>next\<close> argument only, and no cookie is
  set; so two failing requests with the same \<^verbatim>\<open>next\<close> get the same reply. The log tells
  an unknown user from a bad password: nothing is logged for the first, a login error for
  the second.
\<close>

theorem login_failures_same_reply:
  "(spec_login_failure ext self w = Some e \<longrightarrow>
      fst (LoginHandler_post ext self w) = Redirect (error_page self)
      \<and> cookies (snd (LoginHandler_post ext self w)) = cookies w)
   \<and> (spec_login_failure ext self w = Some e \<and> spec_login_failure ext' self' w' = Some e'
        \<and> arguments self ''next'' = arguments self' ''next'' \<longrightarrow>
      fst (LoginHandler_post ext self w) = fst (LoginHandler_post ext' self' w'))
   \<and> (spec_login_failure ext self w = Some NoSuchUser \<longrightarrow>
      log (snd (LoginHandler_post ext self w)) = log w)
   \<and> (spec_login_failure ext self w = Some BadPassword \<longrightarrow>
      log (snd (LoginHandler_post ext self w)) = log w @
        [LoginError (filter_ascii ext (get_argument self ''username'' []))
           (filter_ascii ext (get_argument self ''password'' [])) (remote_ip self)])"
proof (intro conjI impI)
  assume "spec_login_failure ext self w = Some e"
  then show "fst (LoginHandler_post ext self w) = Redirect (error_page self)"
    and "cookies (snd (LoginHandler_post ext self w)) = cookies w"
    by (rule login_failure_reply)+
next
  assume a: "spec_login_failure ext self w = Some e \<and> spec_login_failure ext' self' w' = Some e'
        \<and> arguments self ''next'' = arguments self' ''next''"
  then have "error_page self = error_page self'"
    by (simp add: error_page_def)
  with a show "fst (LoginHandler_post ext self w) = fst (LoginHandler_post ext' self' w')"
    by (simp add: login_failure_reply(1))
next
  assume "spec_login_failure ext self w = Some NoSuchUser"
  then show "log (snd (LoginHandler_post ext self w)) = log w"
    by (rule login_log_no_user)
next
  assume "spec_login_failure ext self w = Some BadPassword"
  then show "log (snd (LoginHandler_post ext self w)) = log w @
        [LoginError (filter_ascii ext (get_argument self ''username'' []))
           (filter_ascii ext (get_argument self ''password'' [])) (remote_ip self)]"
    by (rule login_log_bad_password)
qed

lemma sample_login_failures:
  "spec_login_failure sample_externals
     (sample_request (login_arguments ''bob'' ''secret'' nxt) []) sample_world = Some NoSuchUser"
  "spec_login_failure sample_externals
     (sample_request (login_arguments ''alice'' ''guess'' nxt) []) sample_world = Some BadPassword"
  "spec_login_failure sample_externals
     (sample_request (login_arguments ''alice'' ''secret'' nxt) [])
     (sample_world\<lparr>participations := Map.empty\<rparr>) = Some NotEnrolled"
  "spec_login_failure sample_externals
     (sample_request (login_arguments ''alice'' ''secret'' nxt) [])
     (sample_world\<lparr>participations :=
        [(''ioi'', ''alice'') \<mapsto> alice\<lparr>p_ip := Some ''10.0.0.8''\<rparr>]\<rparr>) = Some IPRejected"
  "spec_login_failure sample_externals
     (sample_request (login_arguments ''alice'' ''secret'' nxt) [])
     (sample_world\<lparr>participations :=
        [(''ioi'', ''alice'') \<mapsto> alice\<lparr>p_hidden := True\<rparr>]\<rparr>) = Some HiddenRejected"
  by (cases nxt;
      simp add: spec_login_failure_def sample_request_def login_arguments_def
        get_argument_def sample_world_def resolve_participation_def sample_contest_def
        correct_password_def alice_def sample_externals_def ip_rejected_def)+

text \<open>
  One sample request for each of the five reasons: the replies are the same redirect;
  only the bad password leaves a log entry.
\<close>

theorem login_failures_same_reply_witness:
  "fst (LoginHandler_post sample_externals
          (sample_request (login_arguments ''bob'' ''secret'' None) []) sample_world) =
     Redirect (ContestUrl [] [(''login_error'', ''true'')])
   \<and> fst (LoginHandler_post sample_externals
          (sample_request (login_arguments ''alice'' ''guess'' None) []) sample_world) =
     Redirect (ContestUrl [] [(''login_error'', ''true'')])
   \<and> fst (LoginHandler_post sample_externals
          (sample_request (login_arguments ''alice'' ''secret'' None) [])
          (sample_world\<lparr>participations := Map.empty\<rparr>)) =
     Redirect (ContestUrl [] [(''login_error'', ''true'')])
   \<and> fst (LoginHandler_post sample_externals
          (sample_request (login_arguments ''alice'' ''secret'' None) [])
          (sample_world\<lparr>participations :=
             [(''ioi'', ''alice'') \<mapsto> alice\<lparr>p_ip := Some ''10.0.0.8''\<rparr>]\<rparr>)) =
     Redirect (ContestUrl [] [(''login_error'', ''true'')])
   \<and> fst (LoginHandler_post sample_externals
          (sample_request (login_arguments ''alice'' ''secret'' None) [])
          (sample_world\<lparr>participations :=
             [(''ioi'', ''alice'') \<mapsto> alice\<lparr>p_hidden := True\<rparr>]\<rparr>)) =
     Redirect (ContestUrl [] [(''login_error'', ''true'')])
   \<and> log (snd (LoginHandler_post sample_externals
          (sample_request (login_arguments ''bob'' ''secret'' None) []) sample_world)) = []
   \<and> log (snd (LoginHandler_post sample_externals
          (sample_request (login_arguments ''alice'' ''guess'' None) []) sample_world)) =
     [LoginError ''alice'' ''guess'' ''10.0.0.7'']"
proof -
  let ?bob = "sample_request (login_arguments ''bob'' ''secret'' None) []"
  let ?guess = "sample_request (login_arguments ''alice'' ''guess'' None) []"
  let ?alice = "sample_request (login_arguments ''alice'' ''secret'' None) []"
  let ?out = "sample_world\<lparr>participations := Map.empty\<rparr>"
  let ?ip = "sample_world\<lparr>participations :=
               [(''ioi'', ''alice'') \<mapsto> alice\<lparr>p_ip := Some ''10.0.0.8''\<rparr>]\<rparr>"
  let ?hid = "sample_world\<lparr>participations :=
                [(''ioi'', ''alice'') \<mapsto> alice\<lparr>p_hidden := True\<rparr>]\<rparr>"
  have e: "error_page (sample_request (login_arguments u x None) []) =
             ContestUrl [] [(''login_error'', ''true'')]" for u x
    by (simp add: error_page_def sample_request_def login_arguments_def)
  have l: "log sample_world = []"
    by (simp add: sample_world_def)
  have g: "filter_ascii sample_externals (get_argument ?guess ''username'' []) = ''alice''"
    "filter_ascii sample_externals (get_argument ?guess ''password'' []) = ''guess''"
    "remote_ip ?guess = ''10.0.0.7''"
    by (simp_all add: sample_externals_def get_argument_def sample_request_def
        login_arguments_def)
  note b = login_failures_same_reply [of sample_externals ?bob sample_world NoSuchUser
      sample_externals ?guess sample_world BadPassword]
  note a = login_failures_same_reply [of sample_externals ?guess sample_world BadPassword
      sample_externals ?bob sample_world NoSuchUser]
  note c = login_failures_same_reply [of sample_externals ?alice ?out NotEnrolled
      sample_externals ?bob sample_world NoSuchUser, THEN conjunct1]
  note d = login_failures_same_reply [of sample_externals ?alice ?ip IPRejected
      sample_externals ?bob sample_world NoSuchUser, THEN conjunct1]
  note h = login_failures_same_reply [of sample_externals ?alice ?hid HiddenRejected
      sample_externals ?bob sample_world NoSuchUser, THEN conjunct1]
  from a b c d h show ?thesis
    by (simp add: sample_login_failures e l g)
qed

text \<open>
  Claim C6, as stated, fails: no \<^verbatim>\<open>next\<close> value is rejected. After a successful
  login an absolute path into another namespace, and an absolute URL, are each split at
  the slashes and redirected to through \<^verbatim>\<open>self.url\<close>.
\<close>

theorem login_next_not_rejected_counterexample:
  "fst (LoginHandler_post sample_externals
          (sample_request (login_arguments ''alice'' ''secret'' (Some ''/other/secret'')) [])
          sample_world) = Redirect (Url [''other'', ''secret''])
   \<and> fst (LoginHandler_post sample_externals
          (sample_request (login_arguments ''alice'' ''secret'' (Some ''http://evil.example/'')) [])
          sample_world) = Redirect (Url [''http:'', [], ''evil.example''])"
proof -
  have "next_page (sample_request
          (login_arguments ''alice'' ''secret'' (Some ''/other/secret'')) []) =
        Url [''other'', ''secret'']"
    "next_page (sample_request
          (login_arguments ''alice'' ''secret'' (Some ''http://evil.example/'')) []) =
        Url [''http:'', [], ''evil.example'']"
    by (simp_all add: next_page_def sample_request_def login_arguments_def strip_def)
  then show ?thesis
    by (simp add: login_success_reply [OF sample_login_alice])
qed

text \<open>
  Claim C6, amended. Without a \<^verbatim>\<open>next\<close> argument a successful login redirects to
  the contest root \<^verbatim>\<open>self.contest_url()\<close>; with \<^verbatim>\<open>next\<close> equal to \<^verbatim>\<open>/\<close> it
  redirects to \<^verbatim>\<open>self.url()\<close>; with any other \<^verbatim>\<open>next\<close> it strips the slashes at both
  ends, splits at the slashes and redirects to \<^verbatim>\<open>self.url\<close> of the segments. The login
  handler always answers with a redirect: it rejects no \<^verbatim>\<open>next\<close> value.
\<close>

theorem login_redirect_target:
  "(arguments self ''next'' = None \<longrightarrow> next_page self = ContestUrl [] [])
   \<and> (arguments self ''next'' = Some ''/'' \<longrightarrow> next_page self = Url [])
   \<and> (arguments self ''next'' = Some n \<and> n \<noteq> ''/'' \<longrightarrow>
        next_page self = Url (split CHR ''/'' (strip CHR ''/'' n)))
   \<and> (spec_login_failure ext self w = None \<longrightarrow>
        fst (LoginHandler_post ext self w) = Redirect (next_page self))
   \<and> (\<exists>t. fst (LoginHandler_post ext self w) = Redirect t)"
proof -
  have "\<exists>t. fst (LoginHandler_post ext self w) = Redirect t"
  proof (cases "spec_login_failure ext self w")
    case None
    then show ?thesis by (simp add: login_success_reply)
  next
    case (Some e)
    then show ?thesis by (simp add: login_failure_reply(1))
  qed
  then show ?thesis
    by (simp add: next_page_def login_success_reply)
qed

text \<open>
  The three cases at the sample login of \<open>alice\<close>.
\<close>

theorem login_redirect_target_witness:
  "fst (LoginHandler_post sample_externals
          (sample_request (login_arguments ''alice'' ''secret'' None) []) sample_world) =
     Redirect (ContestUrl [] [])
   \<and> fst (LoginHandler_post sample_externals
          (sample_request (login_arguments ''alice'' ''secret'' (Some ''/'')) []) sample_world) =
     Redirect (Url [])
   \<and> fst (LoginHandler_post sample_externals
          (sample_request (login_arguments ''alice'' ''secret'' (Some ''tasks/a/'')) [])
          sample_world) = Redirect (Url [''tasks'', ''a''])"
proof -
  have n: "arguments (sample_request (login_arguments ''alice'' ''secret'' nxt) []) ''next'' = nxt"
    for nxt
    by (cases nxt) (simp_all add: sample_request_def login_arguments_def)
  have s: "split CHR ''/'' (strip CHR ''/'' ''tasks/a/'') = [''tasks'', ''a'']"
    by (simp add: strip_def)
  note a = login_redirect_target [of "sample_request (login_arguments ''alice'' ''secret'' None) []"
      "''x''" sample_externals sample_world]
  note b = login_redirect_target
      [of "sample_request (login_arguments ''alice'' ''secret'' (Some ''/'')) []"
      "''x''" sample_externals sample_world]
  note c = login_redirect_target
      [of "sample_request (login_arguments ''alice'' ''secret'' (Some ''tasks/a/'')) []"
      "''tasks/a/''" sample_externals sample_world]
  from a b c show ?thesis
    by (simp add: n s sample_login_alice)
qed

section \<open>Properties of the start handler\<close>

lemma start_phase:
  assumes "current_user self = Some p" and "actual_phase self = - 1"
  shows "StartHandler_post self w =
    (Redirect (ContestUrl [] []),
     w\<lparr>log := log w @ [StartingNow (p_username p)],
       participations := (participations w)((name (contest self), p_username p) \<mapsto>
          p\<lparr>starting_time := Some (timestamp self)\<rparr>)\<rparr>)"
  using assms by (simp add: StartHandler_post_def actual_phase_required_def)

lemma start_refused:
  assumes "current_user self = Some p" and "actual_phase self \<noteq> - 1"
  shows "StartHandler_post self w = (PhaseRefused, w)"
  using assms by (simp add: StartHandler_post_def actual_phase_required_def)

lemma started_not_in_phase:
  assumes "current_user self = Some p" and "spec_phase_machine self"
    and "starting_time p = Some t"
  shows "actual_phase self \<noteq> - 1"
  using assms by (simp add: spec_phase_machine_def)

text \<open>
  Claim C2. With the phase computed as the specification describes it (a participation
  whose \<^verbatim>\<open>starting_time\<close> is set is no longer in the phase ``not yet started''), a
  request of a participation whose starting time is set is refused by the phase
  decorator and changes nothing: this refusal is the error the specification calls
  AlreadyStarted. A request that is not refused found the starting time unset and sets it
  to the request's timestamp. After such a start, a second request of the same
  participation, which now carries the row as it was written, is refused and leaves the
  row, so the starting time, as the first request wrote it.
\<close>

theorem start_clock_write_once:
  assumes "current_user self = Some p" and "spec_phase_machine self"
  shows "(starting_time p = Some t \<longrightarrow> StartHandler_post self w = (PhaseRefused, w))
       \<and> (StartHandler_post self w \<noteq> (PhaseRefused, w) \<longrightarrow>
            starting_time p = None \<and> actual_phase self = - 1
            \<and> StartHandler_post self w =
                (Redirect (ContestUrl [] []),
                 w\<lparr>log := log w @ [StartingNow (p_username p)],
                   participations :=
                     (participations w)((name (contest self), p_username p) \<mapsto>
                        p\<lparr>starting_time := Some (timestamp self)\<rparr>)\<rparr>))
       \<and> (starting_time p = None \<and> actual_phase self = - 1
            \<and> current_user again =
                participations (snd (StartHandler_post self w))
                  (name (contest self), p_username p)
            \<and> spec_phase_machine again \<longrightarrow>
            StartHandler_post again (snd (StartHandler_post self w)) =
              (PhaseRefused, snd (StartHandler_post self w))
            \<and> participations (snd (StartHandler_post again (snd (StartHandler_post self w))))
                 (name (contest self), p_username p) =
               Some (p\<lparr>starting_time := Some (timestamp self)\<rparr>))"
proof (intro conjI impI)
  assume "starting_time p = Some t"
  from started_not_in_phase [OF assms this]
  show "StartHandler_post self w = (PhaseRefused, w)"
    by (rule start_refused [OF assms(1)])
next
  assume ran: "StartHandler_post self w \<noteq> (PhaseRefused, w)"
  then have ph: "actual_phase self = - 1"
    using start_refused [OF assms(1)] by blast
  show "actual_phase self = - 1" by (rule ph)
  show "starting_time p = None"
  proof (cases "starting_time p")
    case None
    then show ?thesis .
  next
    case (Some t')
    from started_not_in_phase [OF assms Some] ph show ?thesis by simp
  qed
  show "StartHandler_post self w =
                (Redirect (ContestUrl [] []),
                 w\<lparr>log := log w @ [StartingNow (p_username p)],
                   participations :=
                     (participations w)((name (contest self), p_username p) \<mapsto>
                        p\<lparr>starting_time := Some (timestamp self)\<rparr>)\<rparr>)"
    by (rule start_phase [OF assms(1) ph])
next
  assume a: "starting_time p = None \<and> actual_phase self = - 1
            \<and> current_user again =
                participations (snd (StartHandler_post self w))
                  (name (contest self), p_username p)
            \<and> spec_phase_machine again"
  then have ph: "actual_phase self = - 1" by simp
  have row: "participations (snd (StartHandler_post self w))
               (name (contest self), p_username p) =
             Some (p\<lparr>starting_time := Some (timestamp self)\<rparr>)"
    by (simp add: start_phase [OF assms(1) ph])
  with a have cu: "current_user again = Some (p\<lparr>starting_time := Some (timestamp self)\<rparr>)"
    by simp
  have st: "starting_time (p\<lparr>starting_time := Some (timestamp self)\<rparr>) = Some (timestamp self)"
    by simp
  from a have pm: "spec_phase_machine again" by simp
  show r: "StartHandler_post again (snd (StartHandler_post self w)) =
              (PhaseRefused, snd (StartHandler_post self w))"
    by (rule start_refused [OF cu started_not_in_phase [OF cu pm st]])
  show "participations (snd (StartHandler_post again (snd (StartHandler_post self w))))
                 (name (contest self), p_username p) =
               Some (p\<lparr>starting_time := Some (timestamp self)\<rparr>)"
    by (simp add: r row)
qed

text \<open>
  A fresh participation is started at second 8; its second request, at second 9, is
  refused and leaves the state as it is; so is a request of \<open>alice\<close>, who had started
  at second 5.
\<close>

theorem start_clock_write_once_witness:
  "participations
     (snd (StartHandler_post
        (sample_request Map.empty [] \<lparr>current_user := Some (new_participation ''alice''),
           actual_phase := - 1\<rparr>)
        (sample_world\<lparr>participations := [(''ioi'', ''alice'') \<mapsto> new_participation ''alice'']\<rparr>)))
     (''ioi'', ''alice'') =
     Some ((new_participation ''alice'')\<lparr>starting_time := Some 8000000\<rparr>)
   \<and> StartHandler_post
       (sample_request Map.empty []
          \<lparr>current_user := Some ((new_participation ''alice'')\<lparr>starting_time := Some 8000000\<rparr>),
           timestamp := 9000000\<rparr>)
       (snd (StartHandler_post
          (sample_request Map.empty [] \<lparr>current_user := Some (new_participation ''alice''),
             actual_phase := - 1\<rparr>)
          (sample_world\<lparr>participations :=
             [(''ioi'', ''alice'') \<mapsto> new_participation ''alice'']\<rparr>))) =
     (PhaseRefused,
      snd (StartHandler_post
          (sample_request Map.empty [] \<lparr>current_user := Some (new_participation ''alice''),
             actual_phase := - 1\<rparr>)
          (sample_world\<lparr>participations :=
             [(''ioi'', ''alice'') \<mapsto> new_participation ''alice'']\<rparr>)))
   \<and> StartHandler_post (sample_request Map.empty []) sample_world = (PhaseRefused, sample_world)"
proof -
  let ?first = "sample_request Map.empty []
     \<lparr>current_user := Some (new_participation ''alice''), actual_phase := - 1\<rparr>"
  let ?again = "sample_request Map.empty []
     \<lparr>current_user := Some ((new_participation ''alice'')\<lparr>starting_time := Some 8000000\<rparr>),
      timestamp := 9000000\<rparr>"
  let ?w = "sample_world\<lparr>participations :=
              [(''ioi'', ''alice'') \<mapsto> new_participation ''alice'']\<rparr>"
  have h: "current_user ?first = Some (new_participation ''alice'')"
    "spec_phase_machine ?first" "spec_phase_machine ?again"
    "current_user (sample_request Map.empty []) = Some alice"
    "spec_phase_machine (sample_request Map.empty [])"
    "starting_time alice = Some 5000000"
    "starting_time (new_participation ''alice'') = None"
    "actual_phase ?first = - 1"
    "current_user ?again = Some ((new_participation ''alice'')\<lparr>starting_time := Some 8000000\<rparr>)"
    "name (contest ?first) = ''ioi''" "p_username (new_participation ''alice'') = ''alice''"
    "timestamp ?first = 8000000"
    by (simp_all add: sample_request_def spec_phase_machine_def new_participation_def
        alice_def sample_contest_def)
  note a = start_clock_write_once [OF h(1,2), of _ ?w ?again]
  note b = start_clock_write_once [OF h(4,5), of 5000000 sample_world, THEN conjunct1]
  from a have 1: "StartHandler_post ?first ?w \<noteq> (PhaseRefused, ?w)"
    by (simp add: start_phase [OF h(1,8)])
  from a [THEN conjunct2, THEN conjunct1] 1 h
  have 2: "participations (snd (StartHandler_post ?first ?w)) (''ioi'', ''alice'') =
     Some ((new_participation ''alice'')\<lparr>starting_time := Some 8000000\<rparr>)"
    by simp
  from a [THEN conjunct2, THEN conjunct2] 2 h
  have 3: "StartHandler_post ?again (snd (StartHandler_post ?first ?w)) =
     (PhaseRefused, snd (StartHandler_post ?first ?w))"
    by simp
  from b h have 4: "StartHandler_post (sample_request Map.empty []) sample_world =
     (PhaseRefused, sample_world)"
    by simp
  from 2 3 4 show ?thesis by simp
qed

end
